theory Spec2Isabelle
  imports Complex_Main
begin

section \<open>The shot-level expected-goals scorer (calculate\_xg.py)\<close>

text \<open>
  Python floats are modelled by the reals: every product and sum below is the exact
  value of the expression the source writes, without binary rounding. A value read from
  an INTEGER column of the store is either an integer or Python's \<open>None\<close> (SQL NULL),
  hence \<open>int option\<close>. An exception of the source is the left summand of the result.
\<close>

datatype py_error = TypeError | ZeroDivisionError

text \<open>Lines 36--41 of \<open>calculate_xg\<close>: the base rate by zone, for an integer \<open>y\<close>.\<close>

definition base_xg :: "int \<Rightarrow> real" where
  "base_xg y = (if y < 100 \<or> y > 200 then 0.04 else 0.12)"

text \<open>The two lookup tables of \<open>calculate_xg\<close> (lines 44--51 and 57--62).\<close>

definition type_multipliers :: "int \<rightharpoonup> real" where
  "type_multipliers = [1 \<mapsto> 1.40, 2 \<mapsto> 1.00, 3 \<mapsto> 1.19, 4 \<mapsto> 1.25, 5 \<mapsto> 1.25, 6 \<mapsto> 1.82]"

definition quality_multipliers :: "int \<rightharpoonup> real" where
  "quality_multipliers = [1 \<mapsto> 1.15, 2 \<mapsto> 0.85, 5 \<mapsto> 1.15, 6 \<mapsto> 0.85]"

text \<open>
  \<open>d.get(k, default)\<close> for a dictionary with integer keys: \<open>None\<close> is hashable and is
  not a key of either table, so the lookup yields the default.
\<close>

definition dict_get :: "(int \<rightharpoonup> real) \<Rightarrow> int option \<Rightarrow> real \<Rightarrow> real" where
  "dict_get d k dflt =
     (case k of None \<Rightarrow> dflt
      | Some i \<Rightarrow> (case d i of None \<Rightarrow> dflt | Some v \<Rightarrow> v))"

text \<open>
  \<open>calculate_xg(shot_type, quality, x, y, is_goal)\<close>. The comparison \<open>y < 100\<close> is the
  first thing evaluated; on \<open>None\<close> Python 3 raises \<open>TypeError\<close>. Neither \<open>x\<close> nor
  \<open>is_goal\<close> is read.
\<close>

definition calculate_xg ::
  "int option \<Rightarrow> int option \<Rightarrow> int option \<Rightarrow> int option \<Rightarrow> int option \<Rightarrow> py_error + real" where
  "calculate_xg shot_type quality x y is_goal =
     (case y of
        None \<Rightarrow> Inl TypeError
      | Some yv \<Rightarrow>
          (let type_mult = dict_get type_multipliers shot_type 1.0;
               quality_mult = dict_get quality_multipliers quality 1.0;
               xg = base_xg yv * type_mult * quality_mult
           in Inr (min xg 0.25)))"

section \<open>The store\<close>

text \<open>
  The relational store as the scripts see it: each table is the list of its rows, each
  row a record of the columns the modelled passes read or write. The key columns and
  the counting statistics are written by the ingestion through \<open>int(...)\<close> and are never
  NULL; \<open>goalie_id\<close>, the location, \<open>shot_type\<close> and \<open>quality\<close> of a shot and the
  position of a player may be NULL. The derived columns are added with a default
  (\<open>xg\<close>, \<open>goals_above_xg\<close> and \<open>gsax\<close> 0, \<open>corsi_pct\<close> 50, \<open>pdo\<close> 100) and every pass
  writes numbers into them, so they always hold a number.
\<close>

record shot =
  shot_id :: int
  shot_player_id :: int
  shot_goalie_id :: "int option"
  shot_team_id :: int
  shot_opponent_team_id :: int
  shot_season_id :: int
  shot_x_location :: "int option"
  shot_y_location :: "int option"
  shot_shot_type :: "int option"
  shot_quality :: "int option"
  shot_is_goal :: int
  shot_xg :: real

record skater_row =
  skater_player_id :: int
  skater_team_id :: int
  skater_season_id :: int
  skater_shots :: int
  skater_goals :: int
  skater_xg :: real
  skater_goals_above_xg :: real

record goalie_row =
  goalie_player_id :: int
  goalie_team_id :: int
  goalie_season_id :: int
  goalie_games_played :: int
  goalie_shots_against :: int
  goalie_goals_against :: int
  goalie_save_percentage :: real
  goalie_gsax :: real

record team_row =
  team_team_id :: int
  team_season_id :: int
  team_goals_for :: int
  team_goals_against :: int
  team_corsi_for :: int
  team_corsi_against :: int
  team_corsi_pct :: real
  team_pdo :: real

record player =
  player_player_id :: int
  player_position :: "string option"

record database =
  db_shots :: "shot list"
  db_skater_stats :: "skater_row list"
  db_goalie_stats :: "goalie_row list"
  db_team_stats :: "team_row list"
  db_players :: "player list"

subsection \<open>Scoring every shot (the loop of calculate\_shot\_xg)\<close>

text \<open>
  Lines 110--114: the list \<open>updates\<close> of pairs \<open>(xg, shot_id)\<close>, built shot by shot.
  An exception raised by \<open>calculate_xg\<close> is not caught: it ends the loop and the pass.
\<close>

fun shot_xg_updates :: "shot list \<Rightarrow> py_error + (real \<times> int) list" where
  "shot_xg_updates [] = Inr []"
| "shot_xg_updates (s # ss) =
     (case calculate_xg (shot_shot_type s) (shot_quality s) (shot_x_location s)
             (shot_y_location s) (Some (shot_is_goal s)) of
        Inl e \<Rightarrow> Inl e
      | Inr xg \<Rightarrow>
          (case shot_xg_updates ss of
             Inl e \<Rightarrow> Inl e
           | Inr updates \<Rightarrow> Inr ((xg, shot_id s) # updates)))"

subsection \<open>Aggregating xG by player (aggregate\_xg\_by\_player)\<close>

definition shot_key :: "shot \<Rightarrow> int \<times> int \<times> int" where
  "shot_key s = (shot_player_id s, shot_team_id s, shot_season_id s)"

definition skater_key :: "skater_row \<Rightarrow> int \<times> int \<times> int" where
  "skater_key r = (skater_player_id r, skater_team_id r, skater_season_id r)"

text \<open>
  The query of lines 140--150: \<open>GROUP BY player_id, team_id, season_id\<close> yields one row
  per distinct triple, holding \<open>SUM(xg)\<close>, \<open>SUM(is_goal)\<close> and \<open>COUNT( * )\<close> over the
  shots of exactly that triple. SQL leaves the order of the groups open; they are listed
  here in the order of \<open>remdups\<close>, and the pass is shown below not to depend on it.
\<close>

definition player_xg_row :: "shot list \<Rightarrow> int \<times> int \<times> int \<Rightarrow> int \<times> int \<times> int \<times> real \<times> int \<times> int" where
  "player_xg_row ss k =
     (let grp = filter (\<lambda>s. shot_key s = k) ss
      in (fst k, fst (snd k), snd (snd k),
          sum_list (map shot_xg grp), sum_list (map shot_is_goal grp), int (length grp)))"

definition player_xg_query :: "shot list \<Rightarrow> (int \<times> int \<times> int \<times> real \<times> int \<times> int) list" where
  "player_xg_query ss = map (player_xg_row ss) (remdups (map shot_key ss))"

text \<open>
  \<open>UPDATE skater_stats SET xg = ?, goals_above_xg = ?
     WHERE player_id = ? AND team_id = ? AND season_id = ?\<close>
\<close>

definition update_skater_xg ::
  "real \<Rightarrow> real \<Rightarrow> int \<Rightarrow> int \<Rightarrow> int \<Rightarrow> skater_row list \<Rightarrow> skater_row list" where
  "update_skater_xg xg gax player_id team_id season_id rows =
     map (\<lambda>r. if skater_player_id r = player_id \<and> skater_team_id r = team_id
                  \<and> skater_season_id r = season_id
               then r\<lparr>skater_xg := xg, skater_goals_above_xg := gax\<rparr> else r) rows"

text \<open>One iteration of the loop of lines 157--165.\<close>

definition apply_player_xg ::
  "skater_row list \<Rightarrow> int \<times> int \<times> int \<times> real \<times> int \<times> int \<Rightarrow> skater_row list" where
  "apply_player_xg rows row =
     (case row of (player_id, team_id, season_id, total_xg, actual_goals, n) \<Rightarrow>
        update_skater_xg total_xg (real_of_int actual_goals - total_xg)
          player_id team_id season_id rows)"

definition aggregate_xg_by_player :: "database \<Rightarrow> database" where
  "aggregate_xg_by_player db =
     (let cleared = map (\<lambda>r. r\<lparr>skater_xg := 0, skater_goals_above_xg := 0\<rparr>) (db_skater_stats db);
          player_xg = player_xg_query (db_shots db)
      in db\<lparr>db_skater_stats := foldl apply_player_xg cleared player_xg\<rparr>)"

text \<open>
  What the pass leaves in one row of \<open>skater_stats\<close>, read off the shots of that row's
  own triple; \<open>set_player_xg\<close> is the effect of one group's UPDATE on one row. Both are
  used to state and prove the properties of the pass.
\<close>

definition skater_totals :: "shot list \<Rightarrow> skater_row \<Rightarrow> skater_row" where
  "skater_totals ss r =
     (let grp = filter (\<lambda>s. shot_key s = skater_key r) ss
      in r\<lparr>skater_xg := sum_list (map shot_xg grp),
            skater_goals_above_xg :=
              real_of_int (sum_list (map shot_is_goal grp)) - sum_list (map shot_xg grp)\<rparr>)"

definition set_player_xg :: "shot list \<Rightarrow> int \<times> int \<times> int \<Rightarrow> skater_row \<Rightarrow> skater_row" where
  "set_player_xg ss k r = (if skater_key r = k then skater_totals ss r else r)"

section \<open>Goals saved above expected (calculate\_gsax.py)\<close>

definition goalie_key :: "shot \<Rightarrow> int option \<times> int" where
  "goalie_key s = (shot_goalie_id s, shot_opponent_team_id s)"

text \<open>
  The query of lines 37--48: the shots with a goalie in the given season, grouped by
  \<open>goalie_id, opponent_team_id\<close>. The bare column \<open>season_id\<close> of a group is the
  parameter, by the WHERE clause.
\<close>

definition goalie_shots :: "int \<Rightarrow> shot list \<Rightarrow> shot list" where
  "goalie_shots season_id ss =
     filter (\<lambda>s. shot_goalie_id s \<noteq> None \<and> shot_season_id s = season_id) ss"

definition goalie_data_row ::
  "int \<Rightarrow> shot list \<Rightarrow> int option \<times> int \<Rightarrow> int option \<times> int \<times> int \<times> real \<times> int \<times> int" where
  "goalie_data_row season_id rows k =
     (let grp = filter (\<lambda>s. goalie_key s = k) rows
      in (fst k, snd k, season_id,
          sum_list (map shot_xg grp), sum_list (map shot_is_goal grp), int (length grp)))"

definition goalie_data_query ::
  "int \<Rightarrow> shot list \<Rightarrow> (int option \<times> int \<times> int \<times> real \<times> int \<times> int) list" where
  "goalie_data_query season_id ss =
     (let rows = goalie_shots season_id ss
      in map (goalie_data_row season_id rows) (remdups (map goalie_key rows)))"

text \<open>
  \<open>UPDATE goalie_stats SET gsax = ? WHERE player_id = ? AND team_id = ? AND season_id = ?\<close>,
  one element of the \<open>executemany\<close> list.
\<close>

definition update_goalie_gsax ::
  "goalie_row list \<Rightarrow> real \<times> int option \<times> int \<times> int \<Rightarrow> goalie_row list" where
  "update_goalie_gsax rows u =
     (case u of (gsax, goalie_id, team_id, season_id) \<Rightarrow>
        map (\<lambda>r. if Some (goalie_player_id r) = goalie_id \<and> goalie_team_id r = team_id
                     \<and> goalie_season_id r = season_id
                  then r\<lparr>goalie_gsax := gsax\<rparr> else r) rows)"

text \<open>Lines 53--62: one update per group, \<open>gsax = xg_against - goals_against\<close>.\<close>

definition gsax_update ::
  "int option \<times> int \<times> int \<times> real \<times> int \<times> int \<Rightarrow> real \<times> int option \<times> int \<times> int" where
  "gsax_update row =
     (case row of (goalie_id, team_id, season_id, xg_against, goals_against, n) \<Rightarrow>
        (xg_against - real_of_int goals_against, goalie_id, team_id, season_id))"

definition calculate_gsax_from_shots :: "int \<Rightarrow> database \<Rightarrow> database" where
  "calculate_gsax_from_shots season_id db =
     (let goalie_data = goalie_data_query season_id (db_shots db);
          updates = map gsax_update goalie_data
      in db\<lparr>db_goalie_stats := foldl update_goalie_gsax (db_goalie_stats db) updates\<rparr>)"

text \<open>SQL \<open>AVG\<close>: NULL (Python \<open>None\<close>) over no rows.\<close>

definition sql_avg :: "real list \<Rightarrow> real option" where
  "sql_avg xs = (if xs = [] then None else Some (sum_list xs / real (length xs)))"

text \<open>
  Lines 81--86: \<open>AVG(save_percentage) ... WHERE season_id IN (1, 5) AND games_played >= 5\<close>,
  then \<open>or 0.91\<close>, which replaces \<open>None\<close> and also an average of zero.
\<close>

definition qualifying_goalies :: "goalie_row list \<Rightarrow> goalie_row list" where
  "qualifying_goalies gs =
     filter (\<lambda>r. (goalie_season_id r = 1 \<or> goalie_season_id r = 5) \<and> goalie_games_played r \<ge> 5) gs"

definition league_avg_sv_pct :: "goalie_row list \<Rightarrow> real" where
  "league_avg_sv_pct gs =
     (case sql_avg (map goalie_save_percentage (qualifying_goalies gs)) of
        None \<Rightarrow> 0.91
      | Some a \<Rightarrow> if a = 0 then 0.91 else a)"

text \<open>Lines 99--113: the updates for the goalies of season 8 with shots against.\<close>

definition season_8_gsax_updates :: "real \<Rightarrow> goalie_row list \<Rightarrow> (real \<times> int option \<times> int \<times> int) list" where
  "season_8_gsax_updates avg gs =
     concat (map (\<lambda>r. if goalie_shots_against r = 0 then []
                       else (let expected_sv = avg;
                                 expected_goals = real_of_int (goalie_shots_against r) * (1 - expected_sv);
                                 gsax = expected_goals - real_of_int (goalie_goals_against r)
                             in [(gsax, Some (goalie_player_id r), goalie_team_id r, goalie_season_id r)]))
            (filter (\<lambda>r. goalie_season_id r = 8 \<and> goalie_shots_against r > 0) gs))"

definition estimate_gsax_for_season_8 :: "database \<Rightarrow> database" where
  "estimate_gsax_for_season_8 db =
     (let avg = league_avg_sv_pct (db_goalie_stats db);
          updates = season_8_gsax_updates avg (db_goalie_stats db)
      in db\<lparr>db_goalie_stats := foldl update_goalie_gsax (db_goalie_stats db) updates\<rparr>)"

text \<open>
  What the two passes leave in one row of \<open>goalie_stats\<close>; \<open>set_gsax\<close> is the effect of
  one UPDATE on one row.
\<close>

definition shots_faced :: "int \<Rightarrow> shot list \<Rightarrow> goalie_row \<Rightarrow> shot list" where
  "shots_faced season_id ss r =
     filter (\<lambda>s. shot_goalie_id s = Some (goalie_player_id r)
                  \<and> shot_opponent_team_id s = goalie_team_id r
                  \<and> shot_season_id s = season_id) ss"

definition goalie_gsax_from_shots :: "int \<Rightarrow> shot list \<Rightarrow> goalie_row \<Rightarrow> goalie_row" where
  "goalie_gsax_from_shots season_id ss r =
     (if goalie_season_id r = season_id \<and> shots_faced season_id ss r \<noteq> []
      then r\<lparr>goalie_gsax := sum_list (map shot_xg (shots_faced season_id ss r))
                 - real_of_int (sum_list (map shot_is_goal (shots_faced season_id ss r)))\<rparr>
      else r)"

definition goalie_gsax_estimate :: "real \<Rightarrow> goalie_row \<Rightarrow> goalie_row" where
  "goalie_gsax_estimate avg r =
     (if goalie_season_id r = 8 \<and> goalie_shots_against r > 0
      then r\<lparr>goalie_gsax := real_of_int (goalie_shots_against r) * (1 - avg)
                 - real_of_int (goalie_goals_against r)\<rparr>
      else r)"

definition set_gsax :: "real \<times> int option \<times> int \<times> int \<Rightarrow> goalie_row \<Rightarrow> goalie_row" where
  "set_gsax u r =
     (case u of (gsax, goalie_id, team_id, season_id) \<Rightarrow>
        if Some (goalie_player_id r) = goalie_id \<and> goalie_team_id r = team_id
           \<and> goalie_season_id r = season_id
        then r\<lparr>goalie_gsax := gsax\<rparr> else r)"

definition goalie_row_key :: "goalie_row \<Rightarrow> int \<times> int \<times> int" where
  "goalie_row_key r = (goalie_player_id r, goalie_team_id r, goalie_season_id r)"

definition gsax_step :: "int \<Rightarrow> shot list \<Rightarrow> int option \<times> int \<Rightarrow> goalie_row \<Rightarrow> goalie_row" where
  "gsax_step season_id ss k r =
     set_gsax (gsax_update (goalie_data_row season_id (goalie_shots season_id ss) k)) r"

definition estimate_step :: "real \<Rightarrow> goalie_row \<Rightarrow> goalie_row \<Rightarrow> goalie_row" where
  "estimate_step avg q r =
     (if goalie_season_id q = 8 \<and> goalie_shots_against q > 0
      then set_gsax (real_of_int (goalie_shots_against q) * (1 - avg) - real_of_int (goalie_goals_against q),
                     Some (goalie_player_id q), goalie_team_id q, goalie_season_id q) r
      else r)"

section \<open>The fallback estimator (estimate\_xg\_season8.py)\<close>

text \<open>
  The state of an \<open>xGEstimator\<close> after its constructor: the historical rates by position
  (a position may be NULL, so the key is optional), the default rate (which
  \<open>load_historical_rates\<close> sets to 0.10) and the rates by volume bucket. The
  properties below hold for every such state.
\<close>

record position_rate =
  rate_shots :: int
  rate_goals :: int
  rate_shooting_pct :: real

record xGEstimator =
  position_rates :: "string option \<rightharpoonup> position_rate"
  default_rate :: real
  volume_rates :: "string \<rightharpoonup> real"

text \<open>
  \<open>estimate_xg_for_player\<close>, lines 72--118. The local \<open>actual_rate\<close> (line 105) is
  guarded by \<open>shots > 0\<close> and never read afterwards; the local \<open>base_xg\<close> of line 101
  is called \<open>base\<close> here.
\<close>

definition estimate_xg_for_player :: "xGEstimator \<Rightarrow> int \<Rightarrow> int \<Rightarrow> string option \<Rightarrow> real" where
  "estimate_xg_for_player self shots goals position =
     (if shots = 0 then 0.0
      else
        (let position_rate = (case position_rates self position of
                                None \<Rightarrow> default_rate self
                              | Some d \<Rightarrow> rate_shooting_pct d);
             bucket = (if shots < 20 then ''low''
                       else if shots < 50 then ''medium''
                       else if shots < 80 then ''high''
                       else ''very_high'');
             volume_rate = (case volume_rates self bucket of
                              None \<Rightarrow> default_rate self
                            | Some v \<Rightarrow> v);
             expected_rate = (position_rate * 0.6) + (volume_rate * 0.4);
             base = real_of_int shots * expected_rate;
             regression = (if shots < 20 then 0.8 else if shots < 50 then 0.6 else 0.4);
             estimated_xg = (base * regression) + (real_of_int goals * (1 - regression))
         in max 0 estimated_xg))"

text \<open>
  The query of lines 125--136: the skater rows of season 8 with shots, joined with the
  position of the player.
\<close>

definition season_8_players ::
  "database \<Rightarrow> (int \<times> int \<times> int \<times> int \<times> int \<times> string option) list" where
  "season_8_players db =
     concat (map (\<lambda>s. map (\<lambda>p. (skater_player_id s, skater_team_id s, skater_season_id s,
                                  skater_shots s, skater_goals s, player_position p))
                          (filter (\<lambda>p. player_player_id p = skater_player_id s) (db_players db)))
                 (filter (\<lambda>s. skater_season_id s = 8 \<and> skater_shots s > 0) (db_skater_stats db)))"

definition season_8_update ::
  "xGEstimator \<Rightarrow> int \<times> int \<times> int \<times> int \<times> int \<times> string option \<Rightarrow> real \<times> real \<times> int \<times> int \<times> int" where
  "season_8_update self =
     (\<lambda>(player_id, team_id, season_id, shots, goals, position).
        (let xg = estimate_xg_for_player self shots goals position;
             goals_above_xg = real_of_int goals - xg
         in (xg, goals_above_xg, player_id, team_id, season_id)))"

definition apply_season_8_update ::
  "skater_row list \<Rightarrow> real \<times> real \<times> int \<times> int \<times> int \<Rightarrow> skater_row list" where
  "apply_season_8_update rows u =
     (case u of (xg, goals_above_xg, player_id, team_id, season_id) \<Rightarrow>
        update_skater_xg xg goals_above_xg player_id team_id season_id rows)"

definition estimate_season_8_xg :: "xGEstimator \<Rightarrow> database \<Rightarrow> database" where
  "estimate_season_8_xg self db =
     (let updates = map (season_8_update self) (season_8_players db)
      in db\<lparr>db_skater_stats := foldl apply_season_8_update (db_skater_stats db) updates\<rparr>)"

text \<open>
  The documented formula, written from the specification's words: the bucket boundaries
  \<open>< 20\<close>, \<open>20--49\<close>, \<open>50--79\<close>, \<open>\<ge> 80\<close>, the regression factor \<open>0.8\<close>, \<open>0.6\<close>, \<open>0.4\<close>
  at \<open>< 20\<close>, \<open>20--49\<close>, \<open>\<ge> 50\<close> shots, the blend and the floor at zero.
\<close>

definition spec_position_rate :: "xGEstimator \<Rightarrow> string option \<Rightarrow> real" where
  "spec_position_rate est position =
     (case position_rates est position of None \<Rightarrow> default_rate est | Some d \<Rightarrow> rate_shooting_pct d)"

definition spec_bucket_rate :: "xGEstimator \<Rightarrow> string \<Rightarrow> real" where
  "spec_bucket_rate est b = (case volume_rates est b of None \<Rightarrow> default_rate est | Some v \<Rightarrow> v)"

definition spec_volume_rate :: "xGEstimator \<Rightarrow> int \<Rightarrow> real" where
  "spec_volume_rate est shots =
     (if shots < 20 then spec_bucket_rate est ''low''
      else if 20 \<le> shots \<and> shots \<le> 49 then spec_bucket_rate est ''medium''
      else if 50 \<le> shots \<and> shots \<le> 79 then spec_bucket_rate est ''high''
      else spec_bucket_rate est ''very_high'')"

definition spec_regression :: "int \<Rightarrow> real" where
  "spec_regression shots =
     (if shots < 20 then 0.8 else if 20 \<le> shots \<and> shots \<le> 49 then 0.6 else 0.4)"

definition spec_estimate_xg :: "xGEstimator \<Rightarrow> int \<Rightarrow> int \<Rightarrow> string option \<Rightarrow> real" where
  "spec_estimate_xg est shots goals position =
     max 0 (real_of_int shots
              * (0.6 * spec_position_rate est position + 0.4 * spec_volume_rate est shots)
              * spec_regression shots
            + real_of_int goals * (1 - spec_regression shots))"

section \<open>Team Corsi and PDO (calculate\_advanced\_stats.py)\<close>

text \<open>Python's true division: a zero divisor raises.\<close>

definition py_truediv :: "real \<Rightarrow> real \<Rightarrow> py_error + real" where
  "py_truediv a b = (if b = 0 then Inl ZeroDivisionError else Inr (a / b))"

text \<open>
  The query shared by both passes (lines 127--133 and 324--330): among the shots of the
  season, the number taken by the team and the number taken against it. \<open>COUNT\<close> is
  never NULL, so the \<open>None\<close> checks of lines 139--142 never fire.
\<close>

definition shots_for_against :: "shot list \<Rightarrow> int \<Rightarrow> int \<Rightarrow> int \<times> int" where
  "shots_for_against ss team_id season_id =
     (let rows = filter (\<lambda>s. shot_season_id s = season_id) ss
      in (int (length (filter (\<lambda>s. shot_team_id s = team_id) rows)),
          int (length (filter (\<lambda>s. shot_opponent_team_id s = team_id) rows))))"

text \<open>Line 123: the team ids the Corsi pass visits.\<close>

definition teams :: "int list" where
  "teams = [1, 2, 3, 4, 5, 6, 8, 9]"

text \<open>Line 147.\<close>

definition corsi_pct_value :: "int \<Rightarrow> int \<Rightarrow> py_error + real" where
  "corsi_pct_value corsi_for corsi_against =
     (if corsi_for + corsi_against > 0
      then py_truediv (100.0 * real_of_int corsi_for) (real_of_int (corsi_for + corsi_against))
      else Inr 50)"

definition update_team_corsi :: "int \<Rightarrow> int \<Rightarrow> real \<Rightarrow> int \<Rightarrow> int \<Rightarrow> team_row list \<Rightarrow> team_row list" where
  "update_team_corsi corsi_for corsi_against corsi_pct team_id season_id rows =
     map (\<lambda>r. if team_team_id r = team_id \<and> team_season_id r = season_id
               then r\<lparr>team_corsi_for := corsi_for, team_corsi_against := corsi_against,
                       team_corsi_pct := corsi_pct\<rparr>
               else r) rows"

fun corsi_loop :: "int \<Rightarrow> shot list \<Rightarrow> int list \<Rightarrow> team_row list \<Rightarrow> py_error + team_row list" where
  "corsi_loop season_id ss [] rows = Inr rows"
| "corsi_loop season_id ss (team_id # rest) rows =
     (case shots_for_against ss team_id season_id of
        (shots_for, shots_against) \<Rightarrow>
          (let corsi_for = shots_for; corsi_against = shots_against
           in case corsi_pct_value corsi_for corsi_against of
                Inl e \<Rightarrow> Inl e
              | Inr corsi_pct \<Rightarrow>
                  corsi_loop season_id ss rest
                    (update_team_corsi corsi_for corsi_against corsi_pct team_id season_id rows)))"

definition calculate_team_corsi_fenwick :: "int \<Rightarrow> database \<Rightarrow> py_error + database" where
  "calculate_team_corsi_fenwick season_id db =
     (case corsi_loop season_id (db_shots db) teams (db_team_stats db) of
        Inl e \<Rightarrow> Inl e
      | Inr rows \<Rightarrow> Inr (db\<lparr>db_team_stats := rows\<rparr>))"

text \<open>Lines 337--341, reached only behind the guard of line 333.\<close>

definition pdo_value :: "int \<Rightarrow> int \<Rightarrow> int \<Rightarrow> int \<Rightarrow> py_error + real" where
  "pdo_value gf ga sf sa =
     (case (if sf > 0 then py_truediv (100.0 * real_of_int gf) (real_of_int sf) else Inr 0) of
        Inl e \<Rightarrow> Inl e
      | Inr shooting_pct \<Rightarrow>
          (case (if sa > 0 then py_truediv (100.0 * real_of_int (sa - ga)) (real_of_int sa)
                 else Inr 91.6) of
             Inl e \<Rightarrow> Inl e
           | Inr save_pct \<Rightarrow> Inr (shooting_pct + save_pct)))"

definition update_team_pdo :: "real \<Rightarrow> int \<Rightarrow> int \<Rightarrow> team_row list \<Rightarrow> team_row list" where
  "update_team_pdo pdo team_id season_id rows =
     map (\<lambda>r. if team_team_id r = team_id \<and> team_season_id r = season_id
               then r\<lparr>team_pdo := pdo\<rparr> else r) rows"

text \<open>
  The loop of lines 320--347 over the fetched rows \<open>(team_id, goals_for, goals_against)\<close>.
  The guard \<open>shot_row and shot_row[0] and shot_row[1]\<close> skips the team when either count
  is zero: nothing is written for it.
\<close>

fun pdo_loop :: "int \<Rightarrow> shot list \<Rightarrow> (int \<times> int \<times> int) list \<Rightarrow> team_row list \<Rightarrow> py_error + team_row list" where
  "pdo_loop season_id ss [] rows = Inr rows"
| "pdo_loop season_id ss ((team_id, gf, ga) # rest) rows =
     (case shots_for_against ss team_id season_id of
        (sf, sa) \<Rightarrow>
          if sf \<noteq> 0 \<and> sa \<noteq> 0
          then (case pdo_value gf ga sf sa of
                  Inl e \<Rightarrow> Inl e
                | Inr pdo \<Rightarrow> pdo_loop season_id ss rest (update_team_pdo pdo team_id season_id rows))
          else pdo_loop season_id ss rest rows)"

definition calculate_team_pdo :: "int \<Rightarrow> database \<Rightarrow> py_error + database" where
  "calculate_team_pdo season_id db =
     (let fetched = map (\<lambda>r. (team_team_id r, team_goals_for r, team_goals_against r))
                        (filter (\<lambda>r. team_season_id r = season_id) (db_team_stats db))
      in case pdo_loop season_id (db_shots db) fetched (db_team_stats db) of
           Inl e \<Rightarrow> Inl e
         | Inr rows \<Rightarrow> Inr (db\<lparr>db_team_stats := rows\<rparr>))"

text \<open>What the two passes leave in one row of \<open>team_stats\<close>.\<close>

definition team_key :: "team_row \<Rightarrow> int \<times> int" where
  "team_key r = (team_team_id r, team_season_id r)"

definition team_corsi_result :: "int \<Rightarrow> shot list \<Rightarrow> team_row \<Rightarrow> team_row" where
  "team_corsi_result season_id ss r =
     (let cf = fst (shots_for_against ss (team_team_id r) season_id);
          ca = snd (shots_for_against ss (team_team_id r) season_id)
      in if team_team_id r \<in> set teams \<and> team_season_id r = season_id
         then r\<lparr>team_corsi_for := cf, team_corsi_against := ca,
                 team_corsi_pct := (if cf + ca = 0 then 50
                                    else 100 * real_of_int cf / real_of_int (cf + ca))\<rparr>
         else r)"

definition team_pdo_result :: "int \<Rightarrow> shot list \<Rightarrow> team_row \<Rightarrow> team_row" where
  "team_pdo_result season_id ss r =
     (let sf = fst (shots_for_against ss (team_team_id r) season_id);
          sa = snd (shots_for_against ss (team_team_id r) season_id)
      in if team_season_id r = season_id \<and> sf \<noteq> 0 \<and> sa \<noteq> 0
         then r\<lparr>team_pdo := 100 * real_of_int (team_goals_for r) / real_of_int sf
                             + 100 * real_of_int (sa - team_goals_against r) / real_of_int sa\<rparr>
         else r)"

definition corsi_step :: "int \<Rightarrow> shot list \<Rightarrow> int \<Rightarrow> team_row \<Rightarrow> team_row" where
  "corsi_step season_id ss team_id r =
     (let cf = fst (shots_for_against ss team_id season_id);
          ca = snd (shots_for_against ss team_id season_id)
      in if team_team_id r = team_id \<and> team_season_id r = season_id
         then r\<lparr>team_corsi_for := cf, team_corsi_against := ca,
                 team_corsi_pct := (if cf + ca = 0 then 50
                                    else 100 * real_of_int cf / real_of_int (cf + ca))\<rparr>
         else r)"

definition pdo_step :: "int \<Rightarrow> shot list \<Rightarrow> int \<times> int \<times> int \<Rightarrow> team_row \<Rightarrow> team_row" where
  "pdo_step season_id ss u r =
     (case u of (team_id, gf, ga) \<Rightarrow>
        (let sf = fst (shots_for_against ss team_id season_id);
             sa = snd (shots_for_against ss team_id season_id)
         in if team_team_id r = team_id \<and> team_season_id r = season_id \<and> sf \<noteq> 0 \<and> sa \<noteq> 0
            then r\<lparr>team_pdo := 100 * real_of_int gf / real_of_int sf
                                + 100 * real_of_int (sa - ga) / real_of_int sa\<rparr>
            else r))"

definition pdo_row_step :: "int \<Rightarrow> shot list \<Rightarrow> team_row \<Rightarrow> team_row \<Rightarrow> team_row" where
  "pdo_row_step season_id ss q r =
     (if team_season_id q = season_id
      then pdo_step season_id ss (team_team_id q, team_goals_for q, team_goals_against q) r
      else r)"


section \<open>A small store for concrete evaluation\<close>

definition example_shots :: "shot list" where
  "example_shots =
     [\<lparr>shot_id = 1, shot_player_id = 10, shot_goalie_id = Some 30, shot_team_id = 1,
       shot_opponent_team_id = 2, shot_season_id = 5, shot_x_location = Some 40,
       shot_y_location = Some 150, shot_shot_type = Some 2, shot_quality = Some 2,
       shot_is_goal = 0, shot_xg = 0.102\<rparr>,
      \<lparr>shot_id = 2, shot_player_id = 10, shot_goalie_id = Some 30, shot_team_id = 3,
       shot_opponent_team_id = 2, shot_season_id = 5, shot_x_location = Some 60,
       shot_y_location = Some 150, shot_shot_type = Some 6, shot_quality = Some 5,
       shot_is_goal = 1, shot_xg = 0.25\<rparr>,
      \<lparr>shot_id = 3, shot_player_id = 10, shot_goalie_id = Some 30, shot_team_id = 1,
       shot_opponent_team_id = 2, shot_season_id = 5, shot_x_location = Some 20,
       shot_y_location = Some 50, shot_shot_type = Some 2, shot_quality = Some 1,
       shot_is_goal = 0, shot_xg = 0.046\<rparr>,
      \<lparr>shot_id = 4, shot_player_id = 20, shot_goalie_id = None, shot_team_id = 2,
       shot_opponent_team_id = 1, shot_season_id = 5, shot_x_location = Some 20,
       shot_y_location = Some 250, shot_shot_type = Some 9, shot_quality = None,
       shot_is_goal = 1, shot_xg = 0.04\<rparr>]"

definition example_db :: database where
  "example_db =
     \<lparr>db_shots = example_shots,
      db_skater_stats =
        [\<lparr>skater_player_id = 10, skater_team_id = 1, skater_season_id = 5, skater_shots = 2,
          skater_goals = 0, skater_xg = 9, skater_goals_above_xg = 9\<rparr>,
         \<lparr>skater_player_id = 10, skater_team_id = 3, skater_season_id = 5, skater_shots = 1,
          skater_goals = 1, skater_xg = 0, skater_goals_above_xg = 0\<rparr>,
         \<lparr>skater_player_id = 11, skater_team_id = 1, skater_season_id = 8, skater_shots = 30,
          skater_goals = 5, skater_xg = 0, skater_goals_above_xg = 0\<rparr>],
      db_goalie_stats =
        [\<lparr>goalie_player_id = 30, goalie_team_id = 2, goalie_season_id = 5,
          goalie_games_played = 10, goalie_shots_against = 3, goalie_goals_against = 1,
          goalie_save_percentage = 0.92, goalie_gsax = 0\<rparr>,
         \<lparr>goalie_player_id = 31, goalie_team_id = 1, goalie_season_id = 1,
          goalie_games_played = 6, goalie_shots_against = 100, goalie_goals_against = 10,
          goalie_save_percentage = 0.90, goalie_gsax = 0\<rparr>,
         \<lparr>goalie_player_id = 32, goalie_team_id = 1, goalie_season_id = 5,
          goalie_games_played = 2, goalie_shots_against = 10, goalie_goals_against = 5,
          goalie_save_percentage = 0.5, goalie_gsax = 0\<rparr>,
         \<lparr>goalie_player_id = 33, goalie_team_id = 2, goalie_season_id = 8,
          goalie_games_played = 4, goalie_shots_against = 50, goalie_goals_against = 4,
          goalie_save_percentage = 0.92, goalie_gsax = 0\<rparr>],
      db_team_stats =
        [\<lparr>team_team_id = 1, team_season_id = 5, team_goals_for = 1, team_goals_against = 1,
          team_corsi_for = 0, team_corsi_against = 0, team_corsi_pct = 50, team_pdo = 100\<rparr>,
         \<lparr>team_team_id = 3, team_season_id = 5, team_goals_for = 1, team_goals_against = 0,
          team_corsi_for = 0, team_corsi_against = 0, team_corsi_pct = 50, team_pdo = 97\<rparr>,
         \<lparr>team_team_id = 4, team_season_id = 5, team_goals_for = 0, team_goals_against = 0,
          team_corsi_for = 7, team_corsi_against = 7, team_corsi_pct = 40, team_pdo = 100\<rparr>],
      db_players =
        [\<lparr>player_player_id = 10, player_position = Some ''F''\<rparr>,
         \<lparr>player_player_id = 11, player_position = Some ''D''\<rparr>]\<rparr>"

definition example_estimator :: xGEstimator where
  "example_estimator =
     \<lparr>position_rates = [Some ''D'' \<mapsto> \<lparr>rate_shots = 100, rate_goals = 5, rate_shooting_pct = 0.05\<rparr>],
      default_rate = 0.10,
      volume_rates = [''medium'' \<mapsto> 0.10]\<rparr>"

text \<open>
  A store in which team 3 has a PDO of 97 on record for season 5 and the shots table
  holds no shot of that season.
\<close>

definition stale_pdo_db :: database where
  "stale_pdo_db =
     \<lparr>db_shots = [], db_skater_stats = [], db_goalie_stats = [],
      db_team_stats =
        [\<lparr>team_team_id = 3, team_season_id = 5, team_goals_for = 40, team_goals_against = 35,
          team_corsi_for = 0, team_corsi_against = 0, team_corsi_pct = 50, team_pdo = 97\<rparr>],
      db_players = []\<rparr>"


text \<open>
  A store with one shot on record, taken in season 5 against goalie 30 of team 2. Goalie
  32 of team 1 has a row for season 5 but faced no shot on record; its stored GSAx is
  the parameter. Goalie 31 has a row for season 1, of which the shots table holds
  nothing, and goalie 33 a row for season 8.
\<close>

definition stale_gsax_db :: "real \<Rightarrow> database" where
  "stale_gsax_db g =
     \<lparr>db_shots =
        [\<lparr>shot_id = 1, shot_player_id = 10, shot_goalie_id = Some 30, shot_team_id = 1,
          shot_opponent_team_id = 2, shot_season_id = 5, shot_x_location = Some 60,
          shot_y_location = Some 150, shot_shot_type = Some 6, shot_quality = Some 5,
          shot_is_goal = 1, shot_xg = 0.25\<rparr>],
      db_skater_stats = [],
      db_goalie_stats =
        [\<lparr>goalie_player_id = 30, goalie_team_id = 2, goalie_season_id = 5,
          goalie_games_played = 10, goalie_shots_against = 1, goalie_goals_against = 1,
          goalie_save_percentage = 0.92, goalie_gsax = 0\<rparr>,
         \<lparr>goalie_player_id = 32, goalie_team_id = 1, goalie_season_id = 5,
          goalie_games_played = 6, goalie_shots_against = 0, goalie_goals_against = 0,
          goalie_save_percentage = 0.90, goalie_gsax = g\<rparr>,
         \<lparr>goalie_player_id = 31, goalie_team_id = 1, goalie_season_id = 1,
          goalie_games_played = 6, goalie_shots_against = 100, goalie_goals_against = 12,
          goalie_save_percentage = 0.88, goalie_gsax = 0\<rparr>,
         \<lparr>goalie_player_id = 33, goalie_team_id = 2, goalie_season_id = 8,
          goalie_games_played = 4, goalie_shots_against = 50, goalie_goals_against = 4,
          goalie_save_percentage = 0.92, goalie_gsax = 0\<rparr>],
      db_team_stats = [],
      db_players = []\<rparr>"

section \<open>Facts about the lookup tables of the scorer\<close>





lemma unknown_shot_type_neutral:
  "t \<notin> {Some 1, Some 2, Some 3, Some 4, Some 5, Some 6}
     \<Longrightarrow> dict_get type_multipliers t 1.0 = 1"
  by (auto simp: dict_get_def type_multipliers_def split: option.splits)

lemma unknown_quality_neutral:
  "q \<notin> {Some 1, Some 2, Some 5, Some 6} \<Longrightarrow> dict_get quality_multipliers q 1.0 = 1"
  by (auto simp: dict_get_def quality_multipliers_def split: option.splits)



section \<open>The aggregation of xG by player, row by row\<close>

lemma apply_player_xg_row:
  "apply_player_xg rows (player_xg_row ss k) = map (set_player_xg ss k) rows"
  by (cases k) (auto simp: apply_player_xg_def player_xg_row_def update_skater_xg_def
      set_player_xg_def skater_totals_def skater_key_def Let_def)

lemma foldl_apply_player_xg:
  "foldl apply_player_xg rows (map (player_xg_row ss) ks)
     = map (\<lambda>r. foldl (\<lambda>r k. set_player_xg ss k r) r ks) rows"
  by (induction ks arbitrary: rows) (simp_all add: apply_player_xg_row o_def)

lemma skater_key_totals [simp]: "skater_key (skater_totals ss r) = skater_key r"
  by (simp add: skater_totals_def skater_key_def Let_def)

lemma set_player_xg_notin:
  "skater_key r \<notin> set ks \<Longrightarrow> foldl (\<lambda>r k. set_player_xg ss k r) r ks = r"
  by (induction ks arbitrary: r) (auto simp: set_player_xg_def)

lemma set_player_xg_in:
  "skater_key r \<in> set ks \<Longrightarrow> distinct ks \<Longrightarrow>
     foldl (\<lambda>r k. set_player_xg ss k r) r ks = skater_totals ss r"
proof (induction ks arbitrary: r)
  case Nil then show ?case by simp
next
  case (Cons k ks)
  show ?case
  proof (cases "skater_key r = k")
    case True
    then have "skater_key (skater_totals ss r) \<notin> set ks" using Cons.prems by simp
    then have "foldl (\<lambda>r k. set_player_xg ss k r) (skater_totals ss r) ks = skater_totals ss r"
      by (rule set_player_xg_notin)
    moreover have "set_player_xg ss k r = skater_totals ss r"
      using True by (simp add: set_player_xg_def)
    ultimately show ?thesis by simp
  next
    case False
    then show ?thesis using Cons by (simp add: set_player_xg_def)
  qed
qed

lemma skater_totals_no_shots:
  "skater_key r \<notin> shot_key ` set ss \<Longrightarrow>
     skater_totals ss r = r\<lparr>skater_xg := 0, skater_goals_above_xg := 0\<rparr>"
proof -
  assume "skater_key r \<notin> shot_key ` set ss"
  then have "filter (\<lambda>s. shot_key s = skater_key r) ss = []"
    by (force simp: filter_empty_conv)
  then show ?thesis by (simp add: skater_totals_def)
qed

lemma skater_totals_clear:
  "skater_totals ss (r\<lparr>skater_xg := a, skater_goals_above_xg := b\<rparr>) = skater_totals ss r"
  by (simp add: skater_totals_def skater_key_def Let_def)

text \<open>The outcome does not depend on the order in which the groups are processed.\<close>

lemma player_groups_any_order:
  assumes "distinct ks" "set ks = shot_key ` set ss"
  shows "foldl apply_player_xg (map (\<lambda>r. r\<lparr>skater_xg := 0, skater_goals_above_xg := 0\<rparr>) rows)
           (map (player_xg_row ss) ks)
         = map (skater_totals ss) rows"
proof -
  have row: "foldl (\<lambda>r k. set_player_xg ss k r) (r\<lparr>skater_xg := 0, skater_goals_above_xg := 0\<rparr>) ks
        = skater_totals ss r" for r
  proof (cases "skater_key r \<in> set ks")
    case True
    then show ?thesis
      using set_player_xg_in [of "r\<lparr>skater_xg := 0, skater_goals_above_xg := 0\<rparr>" ks ss] assms(1)
      by (simp add: skater_totals_clear skater_key_def)
  next
    case False
    then have "skater_key r \<notin> shot_key ` set ss" using assms(2) by simp
    then show ?thesis using False
      set_player_xg_notin [of "r\<lparr>skater_xg := 0, skater_goals_above_xg := 0\<rparr>" ks ss]
      by (simp add: skater_totals_no_shots skater_key_def)
  qed
  show ?thesis by (simp add: foldl_apply_player_xg row o_def)
qed

lemma aggregate_skater_stats:
  "db_skater_stats (aggregate_xg_by_player db) = map (skater_totals (db_shots db)) (db_skater_stats db)"
  by (simp add: aggregate_xg_by_player_def player_xg_query_def player_groups_any_order)

lemma aggregate_other_tables:
  "db_shots (aggregate_xg_by_player db) = db_shots db"
  "db_goalie_stats (aggregate_xg_by_player db) = db_goalie_stats db"
  by (simp_all add: aggregate_xg_by_player_def Let_def)

lemma skater_totals_idem: "skater_totals ss (skater_totals ss r) = skater_totals ss r"
  by (simp add: skater_totals_def skater_key_def Let_def)

lemma aggregate_idem: "aggregate_xg_by_player (aggregate_xg_by_player db) = aggregate_xg_by_player db"
proof -
  have "db_skater_stats (aggregate_xg_by_player (aggregate_xg_by_player db)) = db_skater_stats (aggregate_xg_by_player db)"
   by (simp add: aggregate_skater_stats aggregate_other_tables skater_totals_idem o_def)
  then show ?thesis
    by (simp add: aggregate_xg_by_player_def Let_def)
qed

text \<open>The stored values depend on the shots and on the keys of the rows only.\<close>

lemma skater_totals_values:
  "map (\<lambda>r. (skater_xg r, skater_goals_above_xg r)) (map (skater_totals ss) rows)
     = map (\<lambda>k. (sum_list (map shot_xg (filter (\<lambda>s. shot_key s = k) ss)),
                  real_of_int (sum_list (map shot_is_goal (filter (\<lambda>s. shot_key s = k) ss)))
                    - sum_list (map shot_xg (filter (\<lambda>s. shot_key s = k) ss))))
           (map skater_key rows)"
  by (simp add: skater_totals_def Let_def o_def)

lemma aggregate_function_of_base_facts:
  assumes "db_shots db = db_shots db'"
    "map skater_key (db_skater_stats db) = map skater_key (db_skater_stats db')"
  shows "map (\<lambda>r. (skater_xg r, skater_goals_above_xg r)) (db_skater_stats (aggregate_xg_by_player db))
       = map (\<lambda>r. (skater_xg r, skater_goals_above_xg r)) (db_skater_stats (aggregate_xg_by_player db'))"
  unfolding aggregate_skater_stats skater_totals_values using assms by simp

section \<open>The GSAx pass from shot data, row by row\<close>

lemma foldl_update_goalie_gsax:
  "foldl update_goalie_gsax rows us = map (\<lambda>r. foldl (\<lambda>r u. set_gsax u r) r us) rows"
proof (induction us arbitrary: rows)
  case Nil show ?case by simp
next
  case (Cons u us)
  have "update_goalie_gsax rows u = map (set_gsax u) rows"
    by (cases u) (simp add: update_goalie_gsax_def set_gsax_def)
  then show ?case by (simp add: Cons.IH o_def)
qed

lemma goalie_group_shots_faced:
  "filter (\<lambda>s. goalie_key s = (Some (goalie_player_id r), goalie_team_id r)) (goalie_shots sid ss)
     = shots_faced sid ss r"
  by (auto simp: goalie_shots_def shots_faced_def goalie_key_def intro: filter_cong)


lemma gsax_step_other:
  "(Some (goalie_player_id r), goalie_team_id r) \<noteq> k \<or> goalie_season_id r \<noteq> sid
     \<Longrightarrow> gsax_step sid ss k r = r"
  by (cases k) (auto simp: gsax_step_def set_gsax_def gsax_update_def goalie_data_row_def Let_def)

lemma gsax_step_own:
  "goalie_season_id r = sid \<Longrightarrow>
     gsax_step sid ss (Some (goalie_player_id r), goalie_team_id r) r
       = r\<lparr>goalie_gsax := sum_list (map shot_xg (shots_faced sid ss r))
                 - real_of_int (sum_list (map shot_is_goal (shots_faced sid ss r)))\<rparr>"
  by (simp add: gsax_step_def set_gsax_def gsax_update_def goalie_data_row_def Let_def
      goalie_group_shots_faced)

lemma gsax_steps_none:
  "(Some (goalie_player_id r), goalie_team_id r) \<notin> set ks \<or> goalie_season_id r \<noteq> sid
     \<Longrightarrow> foldl (\<lambda>r k. gsax_step sid ss k r) r ks = r"
proof (induction ks arbitrary: r)
  case Nil then show ?case by simp
next
  case (Cons k ks)
  then have "gsax_step sid ss k r = r" by (intro gsax_step_other) auto
  then show ?case using Cons by auto
qed

lemma gsax_steps_own:
  assumes "goalie_season_id r = sid" "(Some (goalie_player_id r), goalie_team_id r) \<in> set ks"
    "distinct ks"
  shows "foldl (\<lambda>r k. gsax_step sid ss k r) r ks
       = r\<lparr>goalie_gsax := sum_list (map shot_xg (shots_faced sid ss r))
                 - real_of_int (sum_list (map shot_is_goal (shots_faced sid ss r)))\<rparr>"
  using assms
proof (induction ks arbitrary: r)
  case Nil then show ?case by simp
next
  case (Cons k ks)
  let ?k = "(Some (goalie_player_id r), goalie_team_id r)"
  let ?r' = "r\<lparr>goalie_gsax := sum_list (map shot_xg (shots_faced sid ss r))
                 - real_of_int (sum_list (map shot_is_goal (shots_faced sid ss r)))\<rparr>"
  show ?case
  proof (cases "?k = k")
    case True
    have step: "gsax_step sid ss k r = ?r'" using True gsax_step_own [OF Cons.prems(1), of ss] by simp
    have "(Some (goalie_player_id ?r'), goalie_team_id ?r') \<notin> set ks"
      using True Cons.prems(3) by auto
    then have "foldl (\<lambda>r k. gsax_step sid ss k r) ?r' ks = ?r'"
      by (intro gsax_steps_none) simp
    then show ?thesis using step by simp
  next
    case False
    then have "gsax_step sid ss k r = r" by (intro gsax_step_other) simp
    moreover have "?k \<in> set ks" using False Cons.prems(2) by auto
    ultimately show ?thesis using Cons.IH [of r] Cons.prems by simp
  qed
qed

lemma goalie_key_in_groups:
  "(Some (goalie_player_id r), goalie_team_id r) \<in> set (map goalie_key (goalie_shots sid ss))
     \<longleftrightarrow> shots_faced sid ss r \<noteq> []"
proof -
  have "shots_faced sid ss r \<noteq> [] \<longleftrightarrow>
        (\<exists>s \<in> set (goalie_shots sid ss). goalie_key s = (Some (goalie_player_id r), goalie_team_id r))"
    unfolding goalie_group_shots_faced [symmetric] by (simp add: filter_empty_conv)
  then show ?thesis by force
qed

text \<open>Again the order of the groups is immaterial.\<close>

lemma goalie_groups_any_order:
  assumes "distinct ks" "set ks = goalie_key ` set (goalie_shots sid ss)"
  shows "foldl update_goalie_gsax rows
           (map gsax_update (map (goalie_data_row sid (goalie_shots sid ss)) ks))
         = map (goalie_gsax_from_shots sid ss) rows"
proof -
  have fold: "foldl (\<lambda>r u. set_gsax u r) r (map (\<lambda>k. gsax_update (goalie_data_row sid (goalie_shots sid ss) k)) ks')
      = foldl (\<lambda>r k. gsax_step sid ss k r) r ks'" for r ks'
    by (induction ks' arbitrary: r) (simp_all add: gsax_step_def)
  have row: "foldl (\<lambda>r k. gsax_step sid ss k r) r ks = goalie_gsax_from_shots sid ss r" for r
  proof (cases "goalie_season_id r = sid \<and> shots_faced sid ss r \<noteq> []")
    case True
    then have "(Some (goalie_player_id r), goalie_team_id r) \<in> set ks"
      using goalie_key_in_groups [of r sid ss] assms(2) by simp
    then show ?thesis using True gsax_steps_own [of r sid ks ss] assms(1)
      by (simp add: goalie_gsax_from_shots_def)
  next
    case False
    then have "(Some (goalie_player_id r), goalie_team_id r) \<notin> set ks \<or> goalie_season_id r \<noteq> sid"
      using goalie_key_in_groups [of r sid ss] assms(2) by auto
    then have "foldl (\<lambda>r k. gsax_step sid ss k r) r ks = r" by (rule gsax_steps_none)
    then show ?thesis using False by (auto simp add: goalie_gsax_from_shots_def)
  qed
  show ?thesis by (simp add: foldl_update_goalie_gsax o_def fold row)
qed

lemma calculate_gsax_goalie_stats:
  "db_goalie_stats (calculate_gsax_from_shots sid db)
     = map (goalie_gsax_from_shots sid (db_shots db)) (db_goalie_stats db)"
  using goalie_groups_any_order [of "remdups (map goalie_key (goalie_shots sid (db_shots db)))"
      sid "db_shots db" "db_goalie_stats db"]
  by (simp add: calculate_gsax_from_shots_def goalie_data_query_def Let_def)

lemma goalie_gsax_from_shots_idem:
  "goalie_gsax_from_shots sid ss (goalie_gsax_from_shots sid ss r) = goalie_gsax_from_shots sid ss r"
  by (simp add: goalie_gsax_from_shots_def shots_faced_def)

lemma calculate_gsax_idem:
  "calculate_gsax_from_shots sid (calculate_gsax_from_shots sid db) = calculate_gsax_from_shots sid db"
proof -
  have sh: "db_shots (calculate_gsax_from_shots sid db) = db_shots db"
    by (simp add: calculate_gsax_from_shots_def Let_def)
  have "db_goalie_stats (calculate_gsax_from_shots sid (calculate_gsax_from_shots sid db))
      = db_goalie_stats (calculate_gsax_from_shots sid db)"
    by (simp add: calculate_gsax_goalie_stats sh goalie_gsax_from_shots_idem o_def)
  then show ?thesis
    by (simp add: calculate_gsax_from_shots_def Let_def)
qed

section \<open>The grouped query, row by row\<close>

lemma player_xg_query_keys:
  "map (\<lambda>(p, t, s, x, g, n). (p, t, s)) (player_xg_query ss) = remdups (map shot_key ss)"
  by (simp add: player_xg_query_def player_xg_row_def Let_def o_def)

lemma player_xg_query_distinct: "distinct (map (\<lambda>(p, t, s, x, g, n). (p, t, s)) (player_xg_query ss))"
  by (simp add: player_xg_query_keys)

lemma player_xg_query_sums: "row \<in> set (player_xg_query ss) \<Longrightarrow> \<exists>p t s. row = 
   (p, t, s, sum_list (map shot_xg (filter (\<lambda>x. shot_player_id x = p \<and> shot_team_id x = t \<and> shot_season_id x = s) ss)),
     sum_list (map shot_is_goal (filter (\<lambda>x. shot_player_id x = p \<and> shot_team_id x = t \<and> shot_season_id x = s) ss)),
     int (length (filter (\<lambda>x. shot_player_id x = p \<and> shot_team_id x = t \<and> shot_season_id x = s) ss)))
   \<and> (\<exists>x \<in> set ss. shot_player_id x = p \<and> shot_team_id x = t \<and> shot_season_id x = s)"
  by (auto simp: player_xg_query_def player_xg_row_def Let_def shot_key_def)

lemma player_xg_query_has_row: "x \<in> set ss \<Longrightarrow> player_xg_row ss (shot_key x) \<in> set (player_xg_query ss)"
  by (simp add: player_xg_query_def)

lemma player_xg_row_inj: "player_xg_row ss k = player_xg_row ss k' \<Longrightarrow> k = k'"
  by (cases k; cases k') (simp add: player_xg_row_def Let_def)

section \<open>The season-8 GSAx estimate, row by row\<close>

lemma season_8_updates_fold:
  "foldl (\<lambda>r u. set_gsax u r) r (season_8_gsax_updates avg gs)
     = foldl (\<lambda>r q. estimate_step avg q r) r gs"
proof (induction gs arbitrary: r)
  case Nil show ?case by (simp add: season_8_gsax_updates_def)
next
  case (Cons q qs)
  have unfold: "season_8_gsax_updates avg (q # qs) =
      (if goalie_season_id q = 8 \<and> goalie_shots_against q > 0
       then [(real_of_int (goalie_shots_against q) * (1 - avg) - real_of_int (goalie_goals_against q),
              Some (goalie_player_id q), goalie_team_id q, goalie_season_id q)]
       else []) @ season_8_gsax_updates avg qs"
    by (simp add: season_8_gsax_updates_def Let_def)
  show ?case unfolding unfold using Cons.IH by (simp add: estimate_step_def)
qed

lemma estimate_step_key [simp]:
  "goalie_row_key (estimate_step avg q r) = goalie_row_key r"
  "goalie_shots_against (estimate_step avg q r) = goalie_shots_against r"
  "goalie_goals_against (estimate_step avg q r) = goalie_goals_against r"
  by (simp_all add: estimate_step_def set_gsax_def goalie_row_key_def)

lemma estimate_step_other:
  "goalie_row_key q \<noteq> goalie_row_key r \<Longrightarrow> estimate_step avg q r = r"
  by (auto simp: estimate_step_def set_gsax_def goalie_row_key_def)

lemma estimate_step_same:
  "goalie_row_key q = goalie_row_key r \<Longrightarrow> goalie_shots_against q = goalie_shots_against r
     \<Longrightarrow> goalie_goals_against q = goalie_goals_against r
     \<Longrightarrow> estimate_step avg q r = goalie_gsax_estimate avg r"
  by (auto simp: estimate_step_def set_gsax_def goalie_row_key_def goalie_gsax_estimate_def)

lemma estimate_steps_none:
  "goalie_row_key r \<notin> goalie_row_key ` set gs \<Longrightarrow> foldl (\<lambda>r q. estimate_step avg q r) r gs = r"
proof (induction gs arbitrary: r)
  case Nil show ?case by simp
next
  case (Cons q qs)
  then have "estimate_step avg q r = r" by (intro estimate_step_other) auto
  then show ?case using Cons by simp
qed

lemma goalie_gsax_estimate_key [simp]:
  "goalie_row_key (goalie_gsax_estimate avg r) = goalie_row_key r"
  by (simp add: goalie_gsax_estimate_def goalie_row_key_def)

lemma estimate_steps_own:
  assumes "distinct (map goalie_row_key gs)" "q \<in> set gs"
    "goalie_row_key r = goalie_row_key q" "goalie_shots_against r = goalie_shots_against q"
    "goalie_goals_against r = goalie_goals_against q"
  shows "foldl (\<lambda>r q. estimate_step avg q r) r gs = goalie_gsax_estimate avg r"
  using assms
proof (induction gs arbitrary: r)
  case Nil then show ?case by simp
next
  case (Cons p ps)
  show ?case
  proof (cases "p = q")
    case True
    have step: "estimate_step avg p r = goalie_gsax_estimate avg r"
      using True Cons.prems by (intro estimate_step_same) simp_all
    have "goalie_row_key (goalie_gsax_estimate avg r) \<notin> goalie_row_key ` set ps"
      using True Cons.prems by simp
    then have "foldl (\<lambda>r q. estimate_step avg q r) (goalie_gsax_estimate avg r) ps
        = goalie_gsax_estimate avg r" by (rule estimate_steps_none)
    then show ?thesis using step by simp
  next
    case False
    then have q: "q \<in> set ps" using Cons.prems by simp
    then have "goalie_row_key p \<noteq> goalie_row_key r" using Cons.prems by force
    then have "estimate_step avg p r = r" by (rule estimate_step_other)
    then show ?thesis using Cons.IH [of r] Cons.prems q by simp
  qed
qed

lemma estimate_gsax_goalie_stats:
  assumes "distinct (map goalie_row_key (db_goalie_stats db))"
  shows "db_goalie_stats (estimate_gsax_for_season_8 db)
     = map (goalie_gsax_estimate (league_avg_sv_pct (db_goalie_stats db))) (db_goalie_stats db)"
proof -
  let ?gs = "db_goalie_stats db"
  let ?avg = "league_avg_sv_pct ?gs"
  have "foldl (\<lambda>r q. estimate_step ?avg q r) r ?gs = goalie_gsax_estimate ?avg r"
    if "r \<in> set ?gs" for r
    using assms that by (intro estimate_steps_own [where q = r]) simp_all
  then have "map (\<lambda>r. foldl (\<lambda>r q. estimate_step ?avg q r) r ?gs) ?gs
      = map (goalie_gsax_estimate ?avg) ?gs" by simp
  then show ?thesis
    by (simp add: estimate_gsax_for_season_8_def Let_def foldl_update_goalie_gsax
        season_8_updates_fold)
qed

lemma league_avg_qualifying:
  "qualifying_goalies gs \<noteq> [] \<Longrightarrow>
   sum_list (map goalie_save_percentage (qualifying_goalies gs)) \<noteq> 0 \<Longrightarrow>
   league_avg_sv_pct gs = sum_list (map goalie_save_percentage (qualifying_goalies gs))
                            / real (length (qualifying_goalies gs))"
  by (simp add: league_avg_sv_pct_def sql_avg_def)

lemma league_avg_cases:
  "league_avg_sv_pct gs
     = (if qualifying_goalies gs = []
           \<or> sum_list (map goalie_save_percentage (qualifying_goalies gs))
               / real (length (qualifying_goalies gs)) = 0
        then 0.91
        else sum_list (map goalie_save_percentage (qualifying_goalies gs))
               / real (length (qualifying_goalies gs)))"
  by (simp add: league_avg_sv_pct_def sql_avg_def)

lemma league_avg_only_qualifying:
  "qualifying_goalies gs = qualifying_goalies gs' \<Longrightarrow> league_avg_sv_pct gs = league_avg_sv_pct gs'"
  by (simp add: league_avg_sv_pct_def)

section \<open>The Corsi and PDO passes, row by row\<close>

lemma shots_for_against_nonneg:
  "0 \<le> fst (shots_for_against ss t sid)" "0 \<le> snd (shots_for_against ss t sid)"
  by (simp_all add: shots_for_against_def Let_def)

lemma corsi_pct_value_Inr:
  "corsi_pct_value cf ca = Inr (if cf + ca > 0 then 100 * real_of_int cf / real_of_int (cf + ca) else 50)"
  by (simp add: corsi_pct_value_def py_truediv_def)

lemma corsi_pct_value_counts:
  "0 \<le> cf \<Longrightarrow> 0 \<le> ca \<Longrightarrow>
   corsi_pct_value cf ca = Inr (if cf + ca = 0 then 50 else 100 * real_of_int cf / real_of_int (cf + ca))"
  by (auto simp add: corsi_pct_value_Inr)

lemma corsi_loop_rows:
  "corsi_loop sid ss ts rows = Inr (map (\<lambda>r. foldl (\<lambda>r t. corsi_step sid ss t r) r ts) rows)"
proof (induction ts arbitrary: rows)
  case Nil show ?case by simp
next
  case (Cons t ts)
  obtain cf ca where sfa: "shots_for_against ss t sid = (cf, ca)" by force
  have nn: "0 \<le> cf" "0 \<le> ca" using shots_for_against_nonneg [of ss t sid] sfa by simp_all
  have upd: "update_team_corsi cf ca (if cf + ca = 0 then 50 else 100 * real_of_int cf / real_of_int (cf + ca)) t sid rows
      = map (corsi_step sid ss t) rows"
    by (simp add: update_team_corsi_def corsi_step_def sfa Let_def)
  show ?case
    using Cons.IH upd by (simp add: sfa corsi_pct_value_counts [OF nn] o_def)
qed

lemma corsi_step_other: "team_team_id r \<noteq> t \<Longrightarrow> corsi_step sid ss t r = r"
  by (simp add: corsi_step_def Let_def)

lemma corsi_step_own:
  "team_team_id r \<in> set teams \<Longrightarrow> corsi_step sid ss (team_team_id r) r = team_corsi_result sid ss r"
  by (simp add: corsi_step_def team_corsi_result_def Let_def)

lemma team_corsi_result_id [simp]: "team_team_id (team_corsi_result sid ss r) = team_team_id r"
  by (simp add: team_corsi_result_def Let_def)

lemma corsi_steps_none:
  "team_team_id r \<notin> set ts \<Longrightarrow> foldl (\<lambda>r t. corsi_step sid ss t r) r ts = r"
  by (induction ts arbitrary: r) (auto simp: corsi_step_other)

lemma corsi_steps_own:
  "team_team_id r \<in> set ts \<Longrightarrow> distinct ts \<Longrightarrow> team_team_id r \<in> set teams \<Longrightarrow>
   foldl (\<lambda>r t. corsi_step sid ss t r) r ts = team_corsi_result sid ss r"
proof (induction ts arbitrary: r)
  case Nil then show ?case by simp
next
  case (Cons t ts)
  show ?case
  proof (cases "team_team_id r = t")
    case True
    have "team_team_id (team_corsi_result sid ss r) \<notin> set ts" using True Cons.prems by simp
    then have "foldl (\<lambda>r t. corsi_step sid ss t r) (team_corsi_result sid ss r) ts
        = team_corsi_result sid ss r" by (rule corsi_steps_none)
    then show ?thesis using True corsi_step_own [OF Cons.prems(3), of sid ss] by simp
  next
    case False
    then show ?thesis using Cons by (simp add: corsi_step_other)
  qed
qed

lemma calculate_team_corsi_rows:
  "calculate_team_corsi_fenwick sid db
     = Inr (db\<lparr>db_team_stats := map (team_corsi_result sid (db_shots db)) (db_team_stats db)\<rparr>)"
proof -
  have d: "distinct teams" by (simp add: teams_def)
  have "foldl (\<lambda>r t. corsi_step sid (db_shots db) t r) r teams = team_corsi_result sid (db_shots db) r" for r
  proof (cases "team_team_id r \<in> set teams")
    case True
    then show ?thesis using d by (simp add: corsi_steps_own)
  next
    case False
    then have "foldl (\<lambda>r t. corsi_step sid (db_shots db) t r) r teams = r" by (rule corsi_steps_none)
    then show ?thesis using False by (simp add: team_corsi_result_def Let_def)
  qed
  then show ?thesis by (simp add: calculate_team_corsi_fenwick_def corsi_loop_rows)
qed

lemma pdo_value_Inr:
  "0 < sf \<Longrightarrow> 0 < sa \<Longrightarrow>
   pdo_value gf ga sf sa = Inr (100 * real_of_int gf / real_of_int sf
                                + 100 * real_of_int (sa - ga) / real_of_int sa)"
  by (simp add: pdo_value_def py_truediv_def)

lemma pdo_value_total:
  "pdo_value gf ga sf sa
     = Inr ((if sf > 0 then 100 * real_of_int gf / real_of_int sf else 0)
            + (if sa > 0 then 100 * real_of_int (sa - ga) / real_of_int sa else 91.6))"
  by (simp add: pdo_value_def py_truediv_def)

lemma pdo_loop_rows:
  "pdo_loop sid ss us rows = Inr (map (\<lambda>r. foldl (\<lambda>r u. pdo_step sid ss u r) r us) rows)"
proof (induction us arbitrary: rows)
  case Nil show ?case by simp
next
  case (Cons u us)
  obtain t gf ga where u: "u = (t, gf, ga)" by (cases u) auto
  obtain sf sa where sfa: "shots_for_against ss t sid = (sf, sa)" by force
  have nn: "0 \<le> sf" "0 \<le> sa" using shots_for_against_nonneg [of ss t sid] sfa by simp_all
  show ?case
  proof (cases "sf \<noteq> 0 \<and> sa \<noteq> 0")
    case True
    then have pos: "0 < sf" "0 < sa" using nn by simp_all
    have upd: "update_team_pdo (100 * real_of_int gf / real_of_int sf
                                + 100 * real_of_int (sa - ga) / real_of_int sa) t sid rows
        = map (pdo_step sid ss u) rows"
      using True by (simp add: update_team_pdo_def pdo_step_def u sfa Let_def)
    show ?thesis using True Cons.IH upd by (simp add: u sfa pdo_value_Inr [OF pos] o_def)
  next
    case False
    then have "map (pdo_step sid ss u) rows = rows"
      by (auto simp: pdo_step_def u sfa Let_def intro: map_idI)
    then show ?thesis using False Cons.IH [of rows] 
      by (auto simp add: u sfa o_def pdo_step_def)
  qed
qed

lemma pdo_fetched_fold:
  "foldl (\<lambda>r u. pdo_step sid ss u r) x
      (map (\<lambda>r. (team_team_id r, team_goals_for r, team_goals_against r))
           (filter (\<lambda>r. team_season_id r = sid) qs))
    = foldl (\<lambda>x q. pdo_row_step sid ss q x) x qs"
  by (induction qs arbitrary: x) (simp_all add: pdo_row_step_def)

lemma pdo_row_step_other: "team_key q \<noteq> team_key r \<Longrightarrow> pdo_row_step sid ss q r = r"
  by (auto simp: pdo_row_step_def pdo_step_def team_key_def Let_def)

lemma pdo_row_step_same:
  "team_key q = team_key r \<Longrightarrow> team_goals_for q = team_goals_for r \<Longrightarrow>
   team_goals_against q = team_goals_against r \<Longrightarrow>
   pdo_row_step sid ss q r = team_pdo_result sid ss r"
  by (auto simp: pdo_row_step_def pdo_step_def team_key_def team_pdo_result_def Let_def)

lemma team_pdo_result_key [simp]: "team_key (team_pdo_result sid ss r) = team_key r"
  by (simp add: team_pdo_result_def team_key_def Let_def)

lemma pdo_row_steps_none:
  "team_key r \<notin> team_key ` set qs \<Longrightarrow> foldl (\<lambda>x q. pdo_row_step sid ss q x) r qs = r"
proof (induction qs arbitrary: r)
  case Nil show ?case by simp
next
  case (Cons q qs)
  then have "pdo_row_step sid ss q r = r" by (intro pdo_row_step_other) auto
  then show ?case using Cons by simp
qed

lemma pdo_row_steps_own:
  assumes "distinct (map team_key qs)" "q \<in> set qs" "team_key r = team_key q"
    "team_goals_for r = team_goals_for q" "team_goals_against r = team_goals_against q"
  shows "foldl (\<lambda>x q. pdo_row_step sid ss q x) r qs = team_pdo_result sid ss r"
  using assms
proof (induction qs arbitrary: r)
  case Nil then show ?case by simp
next
  case (Cons p ps)
  show ?case
  proof (cases "p = q")
    case True
    have step: "pdo_row_step sid ss p r = team_pdo_result sid ss r"
      using True Cons.prems by (intro pdo_row_step_same) simp_all
    have "team_key (team_pdo_result sid ss r) \<notin> team_key ` set ps"
      using True Cons.prems by simp
    then have "foldl (\<lambda>x q. pdo_row_step sid ss q x) (team_pdo_result sid ss r) ps
        = team_pdo_result sid ss r" by (rule pdo_row_steps_none)
    then show ?thesis using step by simp
  next
    case False
    then have q: "q \<in> set ps" using Cons.prems by simp
    then have "team_key p \<noteq> team_key r" using Cons.prems by force
    then have "pdo_row_step sid ss p r = r" by (rule pdo_row_step_other)
    then show ?thesis using Cons.IH [of r] Cons.prems q by simp
  qed
qed

lemma calculate_team_pdo_rows:
  assumes "distinct (map team_key (db_team_stats db))"
  shows "calculate_team_pdo sid db
     = Inr (db\<lparr>db_team_stats := map (team_pdo_result sid (db_shots db)) (db_team_stats db)\<rparr>)"
proof -
  let ?ts = "db_team_stats db"
  have "foldl (\<lambda>x q. pdo_row_step sid (db_shots db) q x) r ?ts = team_pdo_result sid (db_shots db) r"
    if "r \<in> set ?ts" for r
    using assms that by (intro pdo_row_steps_own [where q = r]) simp_all
  then have "map (\<lambda>r. foldl (\<lambda>x q. pdo_row_step sid (db_shots db) q x) r ?ts) ?ts
      = map (team_pdo_result sid (db_shots db)) ?ts" by simp
  then show ?thesis
    by (simp add: calculate_team_pdo_def Let_def pdo_loop_rows pdo_fetched_fold)
qed

lemma calculate_team_pdo_total: "\<exists>db'. calculate_team_pdo sid db = Inr db'"
  by (simp add: calculate_team_pdo_def Let_def pdo_loop_rows)

section \<open>The season-8 xG estimate keeps the rows and the shots\<close>

lemma update_skater_xg_keys:
  "map skater_key (update_skater_xg a b p t s rows) = map skater_key rows"
  by (simp add: update_skater_xg_def skater_key_def o_def)

lemma season_8_updates_keys:
  "map skater_key (foldl apply_season_8_update rows us) = map skater_key rows"
proof (induction us arbitrary: rows)
  case Nil show ?case by simp
next
  case (Cons u us)
  obtain a b p t s where "u = (a, b, p, t, s)" by (cases u) auto
  then show ?case using Cons.IH by (simp add: apply_season_8_update_def update_skater_xg_keys)
qed

lemma estimate_season_8_frame:
  "db_shots (estimate_season_8_xg est db) = db_shots db"
  "map skater_key (db_skater_stats (estimate_season_8_xg est db)) = map skater_key (db_skater_stats db)"
  by (simp_all add: estimate_season_8_xg_def Let_def season_8_updates_keys)

lemma aggregate_clears_rows_without_shots:
  "r \<in> set (db_skater_stats (aggregate_xg_by_player db)) \<Longrightarrow>
   skater_key r \<notin> shot_key ` set (db_shots db) \<Longrightarrow>
   skater_xg r = 0 \<and> skater_goals_above_xg r = 0"
proof -
  assume r: "r \<in> set (db_skater_stats (aggregate_xg_by_player db))"
    and k: "skater_key r \<notin> shot_key ` set (db_shots db)"
  from r obtain r0 where r0: "r = skater_totals (db_shots db) r0"
    by (auto simp: aggregate_skater_stats)
  then have "skater_key r0 \<notin> shot_key ` set (db_shots db)" using k by simp
  then show ?thesis using r0 by (simp add: skater_totals_no_shots)
qed

section \<open>Properties of the shot scorer\<close>

text \<open>
  C1, as the specification states it, is false on the code: the test of line 36 is
  \<open>y < 100 or y > 200\<close>, so the boundary values \<open>y = 100\<close> and \<open>y = 200\<close> take the
  offensive-zone base rate 0.12, not the perimeter rate 0.04. A wrist shot of quality 2
  at \<open>y = 100\<close> scores 0.102, not 0.04 * 1.00 * 0.85 = 0.034.
\<close>

theorem zone_boundary_counterexample:
  "base_xg 100 = 0.12 \<and> base_xg 200 = 0.12 \<and> base_xg 100 \<noteq> 0.04 \<and> base_xg 200 \<noteq> 0.04
   \<and> calculate_xg (Some 2) (Some 2) (Some 0) (Some 100) (Some 0) = Inr 0.102
   \<and> calculate_xg (Some 2) (Some 2) (Some 0) (Some 100) (Some 0) \<noteq> Inr (0.04 * 1.00 * 0.85)"
  by (simp add: base_xg_def calculate_xg_def dict_get_def type_multipliers_def
      quality_multipliers_def)

text \<open>
  C1, amended: for every shot with an integer \<open>y\<close> the score is the capped product of the
  zone base rate and the two multipliers, where the base rate is 0.04 exactly when
  \<open>y < 100\<close> or \<open>y > 200\<close> and 0.12 on the closed interval from 100 to 200 (so \<open>y = 100\<close>,
  \<open>y = 150\<close> and \<open>y = 200\<close> are all high-danger); a wrist shot (type 2) of quality 2 at
  \<open>y = 150\<close> scores 0.12 * 1.00 * 0.85 = 0.102.
\<close>

theorem calculate_xg_zone_base_rate:
  "(y < 100 \<or> 200 < y \<longrightarrow> base_xg y = 0.04)
   \<and> (100 \<le> y \<and> y \<le> 200 \<longrightarrow> base_xg y = 0.12)
   \<and> calculate_xg t q x (Some y) g =
        Inr (min (base_xg y * dict_get type_multipliers t 1.0 * dict_get quality_multipliers q 1.0) 0.25)
   \<and> calculate_xg (Some 2) (Some 2) x (Some 150) g = Inr (0.12 * 1.00 * 0.85)
   \<and> calculate_xg (Some 2) (Some 2) x (Some 150) g = Inr 0.102"
  by (simp add: base_xg_def calculate_xg_def dict_get_def type_multipliers_def
      quality_multipliers_def)

theorem calculate_xg_zone_base_rate_witness:
  "(100::int) \<le> 100 \<and> (100::int) \<le> 200 \<and> base_xg 100 = 0.12
   \<and> ((99::int) < 100 \<or> (200::int) < 99) \<and> base_xg 99 = 0.04
   \<and> calculate_xg (Some 2) (Some 2) (Some 0) (Some 150) (Some 1) = Inr 0.102"
  using calculate_xg_zone_base_rate [where y = 100 and x = "Some 0" and g = "Some 1"]
    calculate_xg_zone_base_rate [where y = 99]
  by simp


text \<open>
  C3: the score does not depend on \<open>is_goal\<close>: two calls that agree on \<open>shot_type\<close>,
  \<open>quality\<close>, \<open>x\<close> and \<open>y\<close> return the same result (the same value, or the same error),
  whatever the two \<open>is_goal\<close> arguments are.
\<close>

theorem calculate_xg_ignores_is_goal:
  "calculate_xg shot_type quality x y is_goal1 = calculate_xg shot_type quality x y is_goal2"
  by (simp add: calculate_xg_def)

text \<open>
  C4: the specification asks that a shot without a location be scored as perimeter and
  that malformed data never abort the batch. The ingestion stores \<open>None\<close> for a missing
  \<open>y_location\<close>, and on such a shot \<open>calculate_xg\<close> raises \<open>TypeError\<close> at the comparison
  of line 36; the scoring loop does not catch it, so the pass ends there without
  scoring any shot.
\<close>

theorem calculate_xg_null_location:
  "calculate_xg (Some 2) (Some 2) None None (Some 0) = Inl TypeError
   \<and> shot_xg_updates
        [\<lparr>shot_id = 1, shot_player_id = 10, shot_goalie_id = Some 30, shot_team_id = 1,
          shot_opponent_team_id = 2, shot_season_id = 5, shot_x_location = Some 40,
          shot_y_location = Some 150, shot_shot_type = Some 2, shot_quality = Some 2,
          shot_is_goal = 0, shot_xg = 0\<rparr>,
         \<lparr>shot_id = 2, shot_player_id = 10, shot_goalie_id = Some 30, shot_team_id = 1,
          shot_opponent_team_id = 2, shot_season_id = 5, shot_x_location = None,
          shot_y_location = None, shot_shot_type = Some 2, shot_quality = Some 2,
          shot_is_goal = 0, shot_xg = 0\<rparr>] = Inl TypeError"
  by (simp add: calculate_xg_def)

section \<open>Properties of the aggregation passes\<close>

text \<open>
  C6, as the specification states it, is false on the code: the stored \<open>gsax\<close> is not a
  function of the stored base facts. \<open>calculate_gsax_from_shots\<close> has no clearing step, so
  a goalie row with no shot faced on record keeps what was stored before: two stores
  with the same shots and the same base columns, holding 0 and 7 for such a row, still
  differ after the pass.
\<close>

theorem stale_gsax_counterexample:
  "db_shots (stale_gsax_db 0) = db_shots (stale_gsax_db 7)
   \<and> map (\<lambda>r. r\<lparr>goalie_gsax := 0\<rparr>) (db_goalie_stats (stale_gsax_db 0))
       = map (\<lambda>r. r\<lparr>goalie_gsax := 0\<rparr>) (db_goalie_stats (stale_gsax_db 7))
   \<and> map goalie_gsax (db_goalie_stats (calculate_gsax_from_shots 5 (stale_gsax_db 0)))
       = [0.25 - 1, 0, 0, 0]
   \<and> map goalie_gsax (db_goalie_stats (calculate_gsax_from_shots 5 (stale_gsax_db 7)))
       = [0.25 - 1, 7, 0, 0]
   \<and> db_goalie_stats (calculate_gsax_from_shots 5 (stale_gsax_db 0))
       \<noteq> db_goalie_stats (calculate_gsax_from_shots 5 (stale_gsax_db 7))"
proof -
  have a: "map goalie_gsax (db_goalie_stats (calculate_gsax_from_shots 5 (stale_gsax_db g)))
       = [0.25 - 1, g, 0, 0]" for g
    by (simp add: calculate_gsax_goalie_stats stale_gsax_db_def goalie_gsax_from_shots_def
        shots_faced_def)
  have "map goalie_gsax (db_goalie_stats (calculate_gsax_from_shots 5 (stale_gsax_db 0)))
       \<noteq> map goalie_gsax (db_goalie_stats (calculate_gsax_from_shots 5 (stale_gsax_db 7)))"
    unfolding a by simp
  then have ne: "db_goalie_stats (calculate_gsax_from_shots 5 (stale_gsax_db 0))
       \<noteq> db_goalie_stats (calculate_gsax_from_shots 5 (stale_gsax_db 7))" by metis
  show ?thesis using a [of 0] a [of 7] ne by (simp add: stale_gsax_db_def)
qed

text \<open>
  C6, amended: running \<open>aggregate_xg_by_player\<close> twice in succession leaves the same store
  as running it once, and so does running \<open>calculate_gsax_from_shots\<close> twice for the same
  season. After \<open>aggregate_xg_by_player\<close> the \<open>xg\<close> and \<open>goals_above_xg\<close> of every skater
  row are the totals of the shots of the row's (player, team, season), so two stores with
  the same shots and the same row keys end with the same values. After
  \<open>calculate_gsax_from_shots\<close> a goalie row of the season with at least one shot faced
  holds the sum of \<open>xg\<close> over the shots faced minus the goals among them, and every other
  goalie row keeps its stored \<open>gsax\<close>.
\<close>

theorem aggregation_recomputation:
  "aggregate_xg_by_player (aggregate_xg_by_player db) = aggregate_xg_by_player db
   \<and> calculate_gsax_from_shots season_id (calculate_gsax_from_shots season_id db)
       = calculate_gsax_from_shots season_id db
   \<and> db_skater_stats (aggregate_xg_by_player db)
       = map (skater_totals (db_shots db)) (db_skater_stats db)
   \<and> (db_shots db = db_shots db'
        \<and> map skater_key (db_skater_stats db) = map skater_key (db_skater_stats db') \<longrightarrow>
        map (\<lambda>r. (skater_xg r, skater_goals_above_xg r)) (db_skater_stats (aggregate_xg_by_player db))
          = map (\<lambda>r. (skater_xg r, skater_goals_above_xg r))
              (db_skater_stats (aggregate_xg_by_player db')))
   \<and> db_goalie_stats (calculate_gsax_from_shots season_id db)
       = map (\<lambda>r. if goalie_season_id r = season_id \<and> shots_faced season_id (db_shots db) r \<noteq> []
                   then r\<lparr>goalie_gsax :=
                           sum_list (map shot_xg (shots_faced season_id (db_shots db) r))
                           - real_of_int (sum_list (map shot_is_goal
                                                     (shots_faced season_id (db_shots db) r)))\<rparr>
                   else r)
             (db_goalie_stats db)"
proof -
  have g: "goalie_gsax_from_shots season_id (db_shots db)
      = (\<lambda>r. if goalie_season_id r = season_id \<and> shots_faced season_id (db_shots db) r \<noteq> []
                   then r\<lparr>goalie_gsax :=
                           sum_list (map shot_xg (shots_faced season_id (db_shots db) r))
                           - real_of_int (sum_list (map shot_is_goal
                                                     (shots_faced season_id (db_shots db) r)))\<rparr>
                   else r)"
    by (rule ext) (simp add: goalie_gsax_from_shots_def)
  show ?thesis
    using aggregate_idem [of db] calculate_gsax_idem [of season_id db]
      aggregate_skater_stats [of db] aggregate_function_of_base_facts [of db db']
      calculate_gsax_goalie_stats [of season_id db]
    unfolding g by blast
qed

theorem aggregation_recomputation_witness:
  "db_shots example_db
     = db_shots (example_db\<lparr>db_skater_stats :=
                   map (\<lambda>r. r\<lparr>skater_xg := 1, skater_goals_above_xg := 2\<rparr>) (db_skater_stats example_db)\<rparr>)
   \<and> map skater_key (db_skater_stats example_db)
       = map skater_key (db_skater_stats (example_db\<lparr>db_skater_stats :=
                   map (\<lambda>r. r\<lparr>skater_xg := 1, skater_goals_above_xg := 2\<rparr>) (db_skater_stats example_db)\<rparr>))
   \<and> map (\<lambda>r. (skater_xg r, skater_goals_above_xg r)) (db_skater_stats (aggregate_xg_by_player example_db))
       = [(0.148, - 0.148), (0.25, 0.75), (0, 0)]
   \<and> map (\<lambda>r. (skater_xg r, skater_goals_above_xg r))
         (db_skater_stats (aggregate_xg_by_player (example_db\<lparr>db_skater_stats :=
                   map (\<lambda>r. r\<lparr>skater_xg := 1, skater_goals_above_xg := 2\<rparr>) (db_skater_stats example_db)\<rparr>)))
       = [(0.148, - 0.148), (0.25, 0.75), (0, 0)]"
proof -
  let ?db' = "example_db\<lparr>db_skater_stats :=
                   map (\<lambda>r. r\<lparr>skater_xg := 1, skater_goals_above_xg := 2\<rparr>) (db_skater_stats example_db)\<rparr>"
  have s: "db_shots example_db = db_shots ?db'" by simp
  have k: "map skater_key (db_skater_stats example_db) = map skater_key (db_skater_stats ?db')"
    by (simp add: skater_key_def o_def)
  note main = aggregation_recomputation [of example_db 5 ?db']
  from main have "db_skater_stats (aggregate_xg_by_player example_db)
       = map (skater_totals (db_shots example_db)) (db_skater_stats example_db)" by blast
  then have a: "map (\<lambda>r. (skater_xg r, skater_goals_above_xg r)) (db_skater_stats (aggregate_xg_by_player example_db))
       = [(0.148, - 0.148), (0.25, 0.75), (0, 0)]"
    by (simp add: example_db_def example_shots_def skater_totals_def shot_key_def skater_key_def)
  from main s k have "map (\<lambda>r. (skater_xg r, skater_goals_above_xg r)) (db_skater_stats (aggregate_xg_by_player example_db))
          = map (\<lambda>r. (skater_xg r, skater_goals_above_xg r))
              (db_skater_stats (aggregate_xg_by_player ?db'))" by blast
  then have b: "map (\<lambda>r. (skater_xg r, skater_goals_above_xg r))
              (db_skater_stats (aggregate_xg_by_player ?db')) = [(0.148, - 0.148), (0.25, 0.75), (0, 0)]"
    using a by simp
  show ?thesis using s k a b by blast
qed

text \<open>
  C7: the skater aggregation groups by the full triple (player, team, season). The rows
  of the grouped query have pairwise distinct triples, and each row holds the sums over
  the shots of exactly its own triple; two shots of one player in one season under two
  different teams give two different rows of the query; and after the pass every row of
  \<open>skater_stats\<close> holds the totals of the shots of its own (player, team, season), so the
  totals of two teams are never merged.
\<close>

theorem aggregation_keyed_by_triple:
  "distinct (map (\<lambda>(p, t, s, x, g, n). (p, t, s)) (player_xg_query (db_shots db)))
   \<and> (\<forall>row \<in> set (player_xg_query (db_shots db)).
         \<exists>p t s. row =
           (p, t, s,
            sum_list (map shot_xg (filter (\<lambda>x. shot_player_id x = p \<and> shot_team_id x = t
                                               \<and> shot_season_id x = s) (db_shots db))),
            sum_list (map shot_is_goal (filter (\<lambda>x. shot_player_id x = p \<and> shot_team_id x = t
                                               \<and> shot_season_id x = s) (db_shots db))),
            int (length (filter (\<lambda>x. shot_player_id x = p \<and> shot_team_id x = t
                                               \<and> shot_season_id x = s) (db_shots db)))))
   \<and> (\<forall>s1 \<in> set (db_shots db). \<forall>s2 \<in> set (db_shots db).
         shot_player_id s1 = shot_player_id s2 \<and> shot_season_id s1 = shot_season_id s2
           \<and> shot_team_id s1 \<noteq> shot_team_id s2 \<longrightarrow>
         player_xg_row (db_shots db) (shot_key s1) \<in> set (player_xg_query (db_shots db))
         \<and> player_xg_row (db_shots db) (shot_key s2) \<in> set (player_xg_query (db_shots db))
         \<and> player_xg_row (db_shots db) (shot_key s1) \<noteq> player_xg_row (db_shots db) (shot_key s2))
   \<and> db_skater_stats (aggregate_xg_by_player db)
       = map (skater_totals (db_shots db)) (db_skater_stats db)"
proof -
  let ?ss = "db_shots db"
  have a: "distinct (map (\<lambda>(p, t, s, x, g, n). (p, t, s)) (player_xg_query ?ss))"
    by (rule player_xg_query_distinct)
  have b: "\<forall>row \<in> set (player_xg_query ?ss).
         \<exists>p t s. row =
           (p, t, s,
            sum_list (map shot_xg (filter (\<lambda>x. shot_player_id x = p \<and> shot_team_id x = t
                                               \<and> shot_season_id x = s) ?ss)),
            sum_list (map shot_is_goal (filter (\<lambda>x. shot_player_id x = p \<and> shot_team_id x = t
                                               \<and> shot_season_id x = s) ?ss)),
            int (length (filter (\<lambda>x. shot_player_id x = p \<and> shot_team_id x = t
                                               \<and> shot_season_id x = s) ?ss)))"
    using player_xg_query_sums [of _ ?ss] by blast
  have c: "\<forall>s1 \<in> set ?ss. \<forall>s2 \<in> set ?ss.
         shot_player_id s1 = shot_player_id s2 \<and> shot_season_id s1 = shot_season_id s2
           \<and> shot_team_id s1 \<noteq> shot_team_id s2 \<longrightarrow>
         player_xg_row ?ss (shot_key s1) \<in> set (player_xg_query ?ss)
         \<and> player_xg_row ?ss (shot_key s2) \<in> set (player_xg_query ?ss)
         \<and> player_xg_row ?ss (shot_key s1) \<noteq> player_xg_row ?ss (shot_key s2)"
  proof (intro ballI impI)
    fix s1 s2 assume s: "s1 \<in> set ?ss" "s2 \<in> set ?ss"
      and h: "shot_player_id s1 = shot_player_id s2 \<and> shot_season_id s1 = shot_season_id s2
           \<and> shot_team_id s1 \<noteq> shot_team_id s2"
    have "shot_key s1 \<noteq> shot_key s2" using h by (simp add: shot_key_def)
    then have "player_xg_row ?ss (shot_key s1) \<noteq> player_xg_row ?ss (shot_key s2)"
      using player_xg_row_inj by blast
    then show "player_xg_row ?ss (shot_key s1) \<in> set (player_xg_query ?ss)
         \<and> player_xg_row ?ss (shot_key s2) \<in> set (player_xg_query ?ss)
         \<and> player_xg_row ?ss (shot_key s1) \<noteq> player_xg_row ?ss (shot_key s2)"
      using s by (simp add: player_xg_query_has_row)
  qed
  show ?thesis using a b c aggregate_skater_stats [of db] by blast
qed

theorem aggregation_keyed_by_triple_witness:
  "example_shots ! 0 \<in> set (db_shots example_db) \<and> example_shots ! 1 \<in> set (db_shots example_db)
   \<and> shot_player_id (example_shots ! 0) = shot_player_id (example_shots ! 1)
   \<and> shot_season_id (example_shots ! 0) = shot_season_id (example_shots ! 1)
   \<and> shot_team_id (example_shots ! 0) \<noteq> shot_team_id (example_shots ! 1)
   \<and> player_xg_row (db_shots example_db) (shot_key (example_shots ! 0)) = (10, 1, 5, 0.148, 0, 2)
   \<and> player_xg_row (db_shots example_db) (shot_key (example_shots ! 1)) = (10, 3, 5, 0.25, 1, 1)
   \<and> (10, 1, 5, 0.148, 0, 2) \<in> set (player_xg_query (db_shots example_db))
   \<and> (10, 3, 5, 0.25, 1, 1) \<in> set (player_xg_query (db_shots example_db))
   \<and> map (\<lambda>r. (skater_player_id r, skater_team_id r, skater_season_id r, skater_xg r,
               skater_goals_above_xg r)) (db_skater_stats (aggregate_xg_by_player example_db))
     = [(10, 1, 5, 0.148, - 0.148), (10, 3, 5, 0.25, 0.75), (11, 1, 8, 0, 0)]"
proof -
  let ?ss = "db_shots example_db"
  let ?s1 = "example_shots ! 0" and ?s2 = "example_shots ! 1"
  have mem: "?s1 \<in> set ?ss" "?s2 \<in> set ?ss"
    by (simp_all add: example_db_def example_shots_def)
  have hyp: "shot_player_id ?s1 = shot_player_id ?s2 \<and> shot_season_id ?s1 = shot_season_id ?s2
      \<and> shot_team_id ?s1 \<noteq> shot_team_id ?s2"
    by (simp add: example_shots_def)
  have rows: "player_xg_row ?ss (shot_key ?s1) = (10, 1, 5, 0.148, 0, 2)"
    "player_xg_row ?ss (shot_key ?s2) = (10, 3, 5, 0.25, 1, 1)"
    by (simp_all add: player_xg_row_def example_db_def example_shots_def shot_key_def)
  note main = aggregation_keyed_by_triple [of example_db]
  from main have "\<forall>s1 \<in> set ?ss. \<forall>s2 \<in> set ?ss.
         shot_player_id s1 = shot_player_id s2 \<and> shot_season_id s1 = shot_season_id s2
           \<and> shot_team_id s1 \<noteq> shot_team_id s2 \<longrightarrow>
         player_xg_row ?ss (shot_key s1) \<in> set (player_xg_query ?ss)
         \<and> player_xg_row ?ss (shot_key s2) \<in> set (player_xg_query ?ss)
         \<and> player_xg_row ?ss (shot_key s1) \<noteq> player_xg_row ?ss (shot_key s2)"
    by blast
  with mem hyp have "player_xg_row ?ss (shot_key ?s1) \<in> set (player_xg_query ?ss)
         \<and> player_xg_row ?ss (shot_key ?s2) \<in> set (player_xg_query ?ss)"
    by blast
  then have inq: "(10, 1, 5, 0.148, 0, 2) \<in> set (player_xg_query ?ss)"
    "(10, 3, 5, 0.25, 1, 1) \<in> set (player_xg_query ?ss)"
    using rows by simp_all
  from main have "db_skater_stats (aggregate_xg_by_player example_db)
       = map (skater_totals ?ss) (db_skater_stats example_db)"
    by blast
  then have agg: "map (\<lambda>r. (skater_player_id r, skater_team_id r, skater_season_id r, skater_xg r,
               skater_goals_above_xg r)) (db_skater_stats (aggregate_xg_by_player example_db))
     = [(10, 1, 5, 0.148, - 0.148), (10, 3, 5, 0.25, 0.75), (11, 1, 8, 0, 0)]"
    by (simp add: example_db_def example_shots_def skater_totals_def shot_key_def skater_key_def)
  show ?thesis using mem hyp rows inq agg by simp
qed

text \<open>
  C10: \<open>aggregate_xg_by_player\<close> first sets \<open>xg\<close> and \<open>goals_above_xg\<close> to zero on every
  row of \<open>skater_stats\<close>, whatever its season. After the pass every row whose triple has
  no shot holds \<open>xg = 0\<close> and \<open>goals_above_xg = 0\<close>, and no row is added or dropped; the
  same holds when the pass runs on a store just filled by \<open>estimate_season_8_xg\<close>, so the
  season-8 estimates do not survive it.
\<close>

theorem aggregate_resets_rows_without_shots:
  "(\<forall>r \<in> set (db_skater_stats (aggregate_xg_by_player db)).
      skater_key r \<notin> shot_key ` set (db_shots db) \<longrightarrow>
      skater_xg r = 0 \<and> skater_goals_above_xg r = 0)
   \<and> map skater_key (db_skater_stats (aggregate_xg_by_player db)) = map skater_key (db_skater_stats db)
   \<and> (\<forall>r \<in> set (db_skater_stats (aggregate_xg_by_player (estimate_season_8_xg est db))).
      skater_key r \<notin> shot_key ` set (db_shots db) \<longrightarrow>
      skater_xg r = 0 \<and> skater_goals_above_xg r = 0)
   \<and> map skater_key (db_skater_stats (aggregate_xg_by_player (estimate_season_8_xg est db)))
       = map skater_key (db_skater_stats db)"
proof -
  have a: "\<forall>r \<in> set (db_skater_stats (aggregate_xg_by_player d)).
      skater_key r \<notin> shot_key ` set (db_shots d) \<longrightarrow>
      skater_xg r = 0 \<and> skater_goals_above_xg r = 0" for d
    using aggregate_clears_rows_without_shots [of _ d] by blast
  have b: "map skater_key (db_skater_stats (aggregate_xg_by_player d)) = map skater_key (db_skater_stats d)" for d
    by (simp add: aggregate_skater_stats)
  show ?thesis
    using a [of db] a [of "estimate_season_8_xg est db"] b [of db] b [of "estimate_season_8_xg est db"]
    by (simp add: estimate_season_8_frame)
qed

theorem aggregate_resets_rows_without_shots_witness:
  "map (\<lambda>r. (skater_key r, skater_xg r, skater_goals_above_xg r))
       (db_skater_stats (estimate_season_8_xg example_estimator example_db))
     = [((10, 1, 5), 9, 9), ((10, 3, 5), 0, 0), ((11, 1, 8), 3.26, 5 - 3.26)]
   \<and> (11, 1, 8) \<notin> shot_key ` set (db_shots example_db)
   \<and> map skater_key (db_skater_stats (aggregate_xg_by_player
                           (estimate_season_8_xg example_estimator example_db)))
       = [(10, 1, 5), (10, 3, 5), (11, 1, 8)]
   \<and> skater_xg (db_skater_stats (aggregate_xg_by_player
                    (estimate_season_8_xg example_estimator example_db)) ! 2) = 0
   \<and> skater_goals_above_xg (db_skater_stats (aggregate_xg_by_player
                    (estimate_season_8_xg example_estimator example_db)) ! 2) = 0"
proof -
  let ?db = "estimate_season_8_xg example_estimator example_db"
  let ?rows = "db_skater_stats (aggregate_xg_by_player ?db)"
  have e: "map (\<lambda>r. (skater_key r, skater_xg r, skater_goals_above_xg r)) (db_skater_stats ?db)
     = [((10, 1, 5), 9, 9), ((10, 3, 5), 0, 0), ((11, 1, 8), 3.26, 5 - 3.26)]"
    by (simp add: estimate_season_8_xg_def season_8_players_def season_8_update_def
        apply_season_8_update_def update_skater_xg_def example_db_def
        estimate_xg_for_player_def example_estimator_def skater_key_def)
  have n: "(11, 1, 8) \<notin> shot_key ` set (db_shots example_db)"
    by (simp add: example_db_def example_shots_def shot_key_def)
  note main = aggregate_resets_rows_without_shots [of example_db example_estimator]
  from main have keys: "map skater_key ?rows = map skater_key (db_skater_stats example_db)"
    by blast
  then have keys': "map skater_key ?rows = [(10, 1, 5), (10, 3, 5), (11, 1, 8)]"
    by (simp add: example_db_def skater_key_def)
  have len: "length ?rows = 3" using keys' by (metis length_map length_Cons list.size(3) numeral_3_eq_3)
  then have mem: "?rows ! 2 \<in> set ?rows" by simp
  have "skater_key (?rows ! 2) = map skater_key ?rows ! 2" using len by simp
  then have k2: "skater_key (?rows ! 2) = (11, 1, 8)" using keys' by simp
  from main have "\<forall>r \<in> set ?rows. skater_key r \<notin> shot_key ` set (db_shots example_db) \<longrightarrow>
      skater_xg r = 0 \<and> skater_goals_above_xg r = 0" by blast
  with mem k2 n have "skater_xg (?rows ! 2) = 0 \<and> skater_goals_above_xg (?rows ! 2) = 0"
    by simp
  then show ?thesis using e n keys' by simp
qed

section \<open>Properties of the fallback estimators\<close>

text \<open>
  C5: for every player with \<open>shots > 0\<close>, \<open>estimate_xg_for_player\<close> returns
  \<open>max(0, shots * (0.6 * position_rate + 0.4 * volume_rate) * r + goals * (1 - r))\<close> with
  the volume buckets \<open>< 20\<close>, \<open>20--49\<close>, \<open>50--79\<close>, \<open>\<ge> 80\<close> and the regression factor
  \<open>r\<close> equal to 0.8 below 20 shots, 0.6 from 20 to 49 and 0.4 from 50 on; for
  \<open>shots = 0\<close> and \<open>goals = 0\<close> it returns 0, whatever the position.
\<close>

theorem estimate_xg_for_player_formula:
  "(0 < shots \<longrightarrow> estimate_xg_for_player est shots goals position
                     = spec_estimate_xg est shots goals position)
   \<and> estimate_xg_for_player est 0 0 position = 0"
  by (simp add: estimate_xg_for_player_def spec_estimate_xg_def spec_position_rate_def
      spec_volume_rate_def spec_bucket_rate_def spec_regression_def Let_def algebra_simps)

theorem estimate_xg_for_player_formula_witness:
  "(0::int) < 30
   \<and> estimate_xg_for_player example_estimator 30 5 (Some ''D'')
       = max 0 (30 * (0.6 * 0.05 + 0.4 * 0.10) * 0.6 + 5 * (1 - 0.6))
   \<and> estimate_xg_for_player example_estimator 30 5 (Some ''D'') = 3.26"
  using estimate_xg_for_player_formula [of 30 example_estimator 5 "Some ''D''"]
  by (simp add: spec_estimate_xg_def spec_position_rate_def spec_volume_rate_def
      spec_bucket_rate_def spec_regression_def example_estimator_def)

text \<open>
  C8, as the specification states it, is false on the code. Season 5 has shots on
  record, yet the season-5 row of goalie 32, who faced none of them and allowed no
  goal, keeps its stored \<open>gsax\<close> of 7 after \<open>calculate_gsax_from_shots\<close> instead of the
  empty sum 0. And the league average takes in the season-1 row of goalie 31 although
  the shots table holds no shot of season 1: the seasons 1 and 5 are constants of the
  query.
\<close>

theorem gsax_stale_row_counterexample:
  "map shot_season_id (db_shots (stale_gsax_db 7)) = [5]
   \<and> map (\<lambda>r. (goalie_player_id r, goalie_season_id r, goalie_goals_against r,
                length (shots_faced 5 (db_shots (stale_gsax_db 7)) r)))
         (db_goalie_stats (stale_gsax_db 7))
       = [(30, 5, 1, 1), (32, 5, 0, 0), (31, 1, 12, 0), (33, 8, 4, 0)]
   \<and> map goalie_gsax (db_goalie_stats (calculate_gsax_from_shots 5 (stale_gsax_db 7)))
       = [0.25 - 1, 7, 0, 0]
   \<and> map goalie_season_id (qualifying_goalies (db_goalie_stats (stale_gsax_db 7))) = [5, 5, 1]
   \<and> league_avg_sv_pct (db_goalie_stats (stale_gsax_db 7)) = 0.90"
  by (simp add: calculate_gsax_goalie_stats stale_gsax_db_def goalie_gsax_from_shots_def
      shots_faced_def league_avg_sv_pct_def sql_avg_def qualifying_goalies_def)

text \<open>
  C8, amended: after \<open>calculate_gsax_from_shots\<close> for a season, every goalie row of that
  season with at least one shot faced on record holds \<open>gsax\<close> = the sum of \<open>xg\<close> over the
  shots faced minus the goals among them, and every other goalie row, also one of that
  season with no shot faced, keeps its stored \<open>gsax\<close>. After \<open>estimate_gsax_for_season_8\<close>,
  in a table with one row per (player, team, season), every row of season 8 with
  \<open>shots_against > 0\<close> holds \<open>shots_against * (1 - league average) - goals_against\<close> and
  every other row is unchanged. The league average is the mean \<open>save_percentage\<close> of the
  rows of seasons 1 and 5 with at least 5 games played, whatever the shots table holds
  for those seasons, and 0.91 when there is no such row or the mean is zero.
\<close>

theorem gsax_stored_values:
  "db_goalie_stats (calculate_gsax_from_shots season_id db)
     = map (\<lambda>r. if goalie_season_id r = season_id \<and> shots_faced season_id (db_shots db) r \<noteq> []
                 then r\<lparr>goalie_gsax :=
                         sum_list (map shot_xg (shots_faced season_id (db_shots db) r))
                         - real_of_int (sum_list (map shot_is_goal
                                                   (shots_faced season_id (db_shots db) r)))\<rparr>
                 else r)
           (db_goalie_stats db)
   \<and> (distinct (map goalie_row_key (db_goalie_stats db)) \<longrightarrow>
        db_goalie_stats (estimate_gsax_for_season_8 db)
          = map (\<lambda>r. if goalie_season_id r = 8 \<and> goalie_shots_against r > 0
                      then r\<lparr>goalie_gsax :=
                              real_of_int (goalie_shots_against r)
                                * (1 - league_avg_sv_pct (db_goalie_stats db))
                              - real_of_int (goalie_goals_against r)\<rparr>
                      else r)
                (db_goalie_stats db))
   \<and> league_avg_sv_pct (db_goalie_stats db)
       = (if qualifying_goalies (db_goalie_stats db) = []
             \<or> sum_list (map goalie_save_percentage (qualifying_goalies (db_goalie_stats db)))
                 / real (length (qualifying_goalies (db_goalie_stats db))) = 0
          then 0.91
          else sum_list (map goalie_save_percentage (qualifying_goalies (db_goalie_stats db)))
                 / real (length (qualifying_goalies (db_goalie_stats db))))
   \<and> qualifying_goalies (db_goalie_stats db)
       = filter (\<lambda>r. (goalie_season_id r = 1 \<or> goalie_season_id r = 5) \<and> 5 \<le> goalie_games_played r)
           (db_goalie_stats db)"
proof -
  have g: "goalie_gsax_from_shots season_id (db_shots db)
      = (\<lambda>r. if goalie_season_id r = season_id \<and> shots_faced season_id (db_shots db) r \<noteq> []
                 then r\<lparr>goalie_gsax :=
                         sum_list (map shot_xg (shots_faced season_id (db_shots db) r))
                         - real_of_int (sum_list (map shot_is_goal
                                                   (shots_faced season_id (db_shots db) r)))\<rparr>
                 else r)"
    by (rule ext) (simp add: goalie_gsax_from_shots_def)
  have e: "goalie_gsax_estimate (league_avg_sv_pct (db_goalie_stats db))
      = (\<lambda>r. if goalie_season_id r = 8 \<and> goalie_shots_against r > 0
                      then r\<lparr>goalie_gsax :=
                              real_of_int (goalie_shots_against r)
                                * (1 - league_avg_sv_pct (db_goalie_stats db))
                              - real_of_int (goalie_goals_against r)\<rparr>
                      else r)"
    by (rule ext) (simp add: goalie_gsax_estimate_def)
  have q: "qualifying_goalies (db_goalie_stats db)
       = filter (\<lambda>r. (goalie_season_id r = 1 \<or> goalie_season_id r = 5) \<and> 5 \<le> goalie_games_played r)
           (db_goalie_stats db)"
    by (simp add: qualifying_goalies_def)
  show ?thesis
    using calculate_gsax_goalie_stats [of season_id db] estimate_gsax_goalie_stats [of db]
      league_avg_cases [of "db_goalie_stats db"] q
    unfolding g e by blast
qed

theorem gsax_stored_values_witness:
  "distinct (map goalie_row_key (db_goalie_stats example_db))
   \<and> map goalie_save_percentage (qualifying_goalies (db_goalie_stats example_db)) = [0.92, 0.90]
   \<and> league_avg_sv_pct (db_goalie_stats example_db) = 0.91
   \<and> map goalie_gsax (db_goalie_stats (calculate_gsax_from_shots 5 example_db))
       = [(0.102 + 0.25 + 0.046) - 1, 0, 0, 0]
   \<and> map goalie_gsax (db_goalie_stats (estimate_gsax_for_season_8 example_db))
       = [0, 0, 0, 50 * (1 - 0.91) - 4]"
proof -
  let ?gs = "db_goalie_stats example_db"
  have d: "distinct (map goalie_row_key ?gs)"
    by (simp add: example_db_def goalie_row_key_def)
  note main = gsax_stored_values [of 5 example_db]
  from main have "qualifying_goalies ?gs
       = filter (\<lambda>r. (goalie_season_id r = 1 \<or> goalie_season_id r = 5) \<and> 5 \<le> goalie_games_played r) ?gs"
    by blast
  then have q: "map goalie_save_percentage (qualifying_goalies ?gs) = [0.92, 0.90]"
    by (simp add: example_db_def)
  then have len: "length (qualifying_goalies ?gs) = 2"
    by (metis length_map length_Cons list.size(3) numeral_2_eq_2)
  from main have "league_avg_sv_pct ?gs
       = (if qualifying_goalies ?gs = []
             \<or> sum_list (map goalie_save_percentage (qualifying_goalies ?gs))
                 / real (length (qualifying_goalies ?gs)) = 0
          then 0.91
          else sum_list (map goalie_save_percentage (qualifying_goalies ?gs))
                 / real (length (qualifying_goalies ?gs)))"
    by blast
  then have avg: "league_avg_sv_pct ?gs = 0.91"
    unfolding q len by simp
  from main have "db_goalie_stats (calculate_gsax_from_shots 5 example_db)
     = map (\<lambda>r. if goalie_season_id r = 5 \<and> shots_faced 5 (db_shots example_db) r \<noteq> []
                 then r\<lparr>goalie_gsax :=
                         sum_list (map shot_xg (shots_faced 5 (db_shots example_db) r))
                         - real_of_int (sum_list (map shot_is_goal
                                                   (shots_faced 5 (db_shots example_db) r)))\<rparr>
                 else r) ?gs"
    by blast
  then have a: "map goalie_gsax (db_goalie_stats (calculate_gsax_from_shots 5 example_db))
       = [(0.102 + 0.25 + 0.046) - 1, 0, 0, 0]"
    by (simp add: example_db_def example_shots_def shots_faced_def)
  from main d have "db_goalie_stats (estimate_gsax_for_season_8 example_db)
          = map (\<lambda>r. if goalie_season_id r = 8 \<and> goalie_shots_against r > 0
                      then r\<lparr>goalie_gsax :=
                              real_of_int (goalie_shots_against r) * (1 - league_avg_sv_pct ?gs)
                              - real_of_int (goalie_goals_against r)\<rparr>
                      else r) ?gs"
    by blast
  then have "db_goalie_stats (estimate_gsax_for_season_8 example_db)
          = map (\<lambda>r. if goalie_season_id r = 8 \<and> goalie_shots_against r > 0
                      then r\<lparr>goalie_gsax :=
                              real_of_int (goalie_shots_against r) * (1 - 0.91)
                              - real_of_int (goalie_goals_against r)\<rparr>
                      else r) ?gs"
    unfolding avg by simp
  then have b: "map goalie_gsax (db_goalie_stats (estimate_gsax_for_season_8 example_db))
       = [0, 0, 0, 50 * (1 - 0.91) - 4]"
    by (simp add: example_db_def)
  show ?thesis using d q avg a b by simp
qed

section \<open>Properties of the team passes\<close>

text \<open>
  C9, as the specification states it, is false on the code: when a team has no shots on
  record for the season the PDO pass writes nothing (the guard of line 333), so a PDO of
  97 on record stays 97 and is not replaced by 100.
\<close>

theorem pdo_default_counterexample:
  "shots_for_against (db_shots stale_pdo_db) 3 5 = (0, 0)
   \<and> calculate_team_pdo 5 stale_pdo_db = Inr stale_pdo_db
   \<and> map team_pdo (db_team_stats stale_pdo_db) = [97]
   \<and> map team_pdo (db_team_stats stale_pdo_db) \<noteq> [100]"
  by (simp add: calculate_team_pdo_def stale_pdo_db_def shots_for_against_def)

text \<open>
  C9, amended: line 147 yields \<open>100 * corsi_for / (corsi_for + corsi_against)\<close> when the
  sum is positive and 50 otherwise; for every team of the fixed list (1--6, 8, 9) the
  Corsi pass stores the two shot counts and that percentage (50 when both counts are
  zero) and leaves the rows of other teams alone. In a table with one row per
  (team, season) the PDO pass stores
  \<open>100 * goals_for / shots_for + 100 * (shots_against - goals_against) / shots_against\<close>
  when both shot counts are non-zero and otherwise leaves the stored PDO as it is.
  Neither pass ever raises.
\<close>

theorem corsi_pdo_values:
  "corsi_pct_value cf ca
     = Inr (if cf + ca > 0 then 100 * real_of_int cf / real_of_int (cf + ca) else 50)
   \<and> calculate_team_corsi_fenwick season_id db
       = Inr (db\<lparr>db_team_stats := map (team_corsi_result season_id (db_shots db)) (db_team_stats db)\<rparr>)
   \<and> (\<exists>db'. calculate_team_pdo season_id db = Inr db')
   \<and> (distinct (map team_key (db_team_stats db)) \<longrightarrow>
        calculate_team_pdo season_id db
          = Inr (db\<lparr>db_team_stats := map (team_pdo_result season_id (db_shots db)) (db_team_stats db)\<rparr>))"
  using corsi_pct_value_Inr [of cf ca] calculate_team_corsi_rows [of season_id db]
    calculate_team_pdo_total [of season_id db] calculate_team_pdo_rows [of db season_id]
  by simp

theorem corsi_pdo_values_witness:
  "distinct (map team_key (db_team_stats example_db))
   \<and> map (\<lambda>t. shots_for_against (db_shots example_db) t 5) [1, 3, 4] = [(2, 1), (1, 0), (0, 0)]
   \<and> (\<exists>db'. calculate_team_corsi_fenwick 5 example_db = Inr db'
             \<and> map team_corsi_pct (db_team_stats db') = [200 / 3, 100, 50])
   \<and> (\<exists>db'. calculate_team_pdo 5 example_db = Inr db'
             \<and> map team_pdo (db_team_stats db') = [100 * 1 / 2 + 100 * (1 - 1) / 1, 97, 100])"
proof -
  have d: "distinct (map team_key (db_team_stats example_db))"
    by (simp add: example_db_def team_key_def)
  have c: "map (\<lambda>t. shots_for_against (db_shots example_db) t 5) [1, 3, 4] = [(2, 1), (1, 0), (0, 0)]"
    by (simp add: example_db_def example_shots_def shots_for_against_def)
  note main = corsi_pdo_values [of 0 0 5 example_db]
  from main have "calculate_team_corsi_fenwick 5 example_db
       = Inr (example_db\<lparr>db_team_stats :=
                map (team_corsi_result 5 (db_shots example_db)) (db_team_stats example_db)\<rparr>)"
    by blast
  moreover have "map team_corsi_pct (map (team_corsi_result 5 (db_shots example_db)) (db_team_stats example_db))
      = [200 / 3, 100, 50]"
    using c by (simp add: example_db_def team_corsi_result_def teams_def)
  ultimately have a: "\<exists>db'. calculate_team_corsi_fenwick 5 example_db = Inr db'
             \<and> map team_corsi_pct (db_team_stats db') = [200 / 3, 100, 50]"
    by simp
  from main d have "calculate_team_pdo 5 example_db
       = Inr (example_db\<lparr>db_team_stats :=
                map (team_pdo_result 5 (db_shots example_db)) (db_team_stats example_db)\<rparr>)"
    by blast
  moreover have "map team_pdo (map (team_pdo_result 5 (db_shots example_db)) (db_team_stats example_db))
      = [100 * 1 / 2 + 100 * (1 - 1) / 1, 97, 100]"
    using c by (simp add: example_db_def team_pdo_result_def)
  ultimately have b: "\<exists>db'. calculate_team_pdo 5 example_db = Inr db'
             \<and> map team_pdo (db_team_stats db') = [100 * 1 / 2 + 100 * (1 - 1) / 1, 97, 100]"
    by simp
  show ?thesis using d c a b by blast
qed

end
